theory Spec2Isabelle
  imports Complex_Main
begin

section \<open>The step detection and counting engine of sihatAI\<close>

text \<open>
  This theory embeds \<^verbatim>\<open>services/step-counter.ts\<close> (class \<^verbatim>\<open>StepCounterService\<close>),
  \<^verbatim>\<open>services/ios-step-helper.ts\<close> (class \<^verbatim>\<open>IOSStepCounterHelper\<close>), the two
  methods \<^verbatim>\<open>getStepCount\<close> and \<^verbatim>\<open>syncWithHealthKit\<close> of
  \<^verbatim>\<open>services/ios-health-service.ts\<close>, and the step part of \<^verbatim>\<open>loadUserData\<close> of the
  activity tracker screen.

  Conventions of the embedding.
  \<^item> A JavaScript \<^verbatim>\<open>number\<close> that holds a sensor reading or a threshold is a \<open>real\<close>:
    comparisons are exact, sums and quotients are taken without rounding, and \<^verbatim>\<open>NaN\<close>
    is not a reading. A step count and a millisecond timestamp (\<^verbatim>\<open>Date.now()\<close>) is an
    \<open>int\<close>. The one division whose divisor can be zero (in \<^verbatim>\<open>compareWithHealthApp\<close>)
    is modelled with JavaScript's \<^verbatim>\<open>Infinity\<close> and \<^verbatim>\<open>NaN\<close> written out.
  \<^item> A \<^verbatim>\<open>Date\<close> is its time value, the milliseconds since the epoch in UTC. The date
    string \<^verbatim>\<open>toISOString().split('T')[0]\<close> is the number of the UTC day of the time
    value. \<^verbatim>\<open>getDate\<close> and \<^verbatim>\<open>setDate\<close> work on local time: the offset of the zone
    at a UTC instant and at a local time is what the environment answers (\<open>localTZA\<close>,
    \<open>localTZAofLocal\<close>), as in the language's \<^verbatim>\<open>LocalTime\<close> and \<^verbatim>\<open>UTC\<close>.
  \<^item> \<^verbatim>\<open>AsyncStorage\<close> holds, under the key \<^verbatim>\<open>daily_steps_\<close> followed by the date, the record that
    \<^verbatim>\<open>saveTodaysSteps\<close> wrote: \<^verbatim>\<open>JSON.parse (JSON.stringify r) = r\<close>. A read or a
    write that throws is an outcome of the environment (\<open>readThrows\<close>, \<open>writeThrows\<close>), and
    each \<^verbatim>\<open>catch\<close> of the source is a branch of its function here.
  \<^item> Every method takes the state it reads and returns the state it leaves; what the clock
    and the storage driver answer during the call is the argument of type \<open>env\<close>.
  \<^item> An \<^verbatim>\<open>async\<close> method runs up to its first \<^verbatim>\<open>await\<close> when it is called. The
    constructor does not await \<^verbatim>\<open>loadTodaysSteps\<close>: the part after its \<^verbatim>\<open>await\<close> is a
    step of its own (\<open>loadSettles\<close>), which runs at some later time. The storage driver
    serves requests in the order they are issued, so the pending read answers with the
    store as it was when the constructor ran.
  \<^item> The listener \<^verbatim>\<open>onStepCountUpdate\<close> is foreign code: the model records whether one
    is registered and the sequence of values it has been called with.
\<close>

subsection \<open>Data\<close>

type_synonym dateStr = int

record StepData =
  steps :: int
  date :: dateStr
  lastUpdate :: int

datatype platform = IOS | Android | Web

datatype failure = StorageError

record env =
  now :: int
  localTZA :: "int \<Rightarrow> int"
  localTZAofLocal :: "int \<Rightarrow> int"
  readThrows :: "dateStr \<Rightarrow> bool"
  writeThrows :: bool

record IOSStepCounterHelper =
  stepBuffer :: "real list"
  helperLastStepTime :: int
  helperStepThreshold :: real
  helperStepCount :: int

record StepCounterService =
  platformOS :: platform
  stepCount :: int
  lastMagnitude :: real
  stepThreshold :: real
  lastStepTime :: int
  onStepCountUpdate :: bool
  iosHelper :: "IOSStepCounterHelper option"
  iosHealthService :: bool
  storage :: "dateStr \<rightharpoonup> StepData"
  notified :: "int list"
  pendingLoad :: "(failure + StepData option) option"

text \<open>\<^verbatim>\<open>private minStepInterval = 200\<close> and \<^verbatim>\<open>private readonly bufferSize = 20\<close>: neither
  field is ever assigned.\<close>

definition minStepInterval :: int where
  "minStepInterval = 200"

definition bufferSize :: nat where
  "bufferSize = 20"

text \<open>\<^verbatim>\<open>new Date().toISOString().split('T')[0]\<close>: the UTC day of the current instant.\<close>

definition msPerDay :: int where
  "msPerDay = 86400000"

definition today :: "env \<Rightarrow> dateStr" where
  "today e = now e div msPerDay"


subsection \<open>The iOS helper: construction, counter and threshold\<close>

definition getInstance :: IOSStepCounterHelper where
  "getInstance = \<lparr>stepBuffer = [], helperLastStepTime = 0, helperStepThreshold = 0.3,
     helperStepCount = 0\<rparr>"

definition getStepCount :: "IOSStepCounterHelper \<Rightarrow> int" where
  "getStepCount h = helperStepCount h"

definition resetStepCount :: "IOSStepCounterHelper \<Rightarrow> IOSStepCounterHelper" where
  "resetStepCount h = h\<lparr>helperStepCount := 0, stepBuffer := []\<rparr>"

definition helperAddSteps :: "int \<Rightarrow> IOSStepCounterHelper \<Rightarrow> IOSStepCounterHelper" where
  "helperAddSteps n h = h\<lparr>helperStepCount := helperStepCount h + n\<rparr>"

definition getThreshold :: "IOSStepCounterHelper \<Rightarrow> real" where
  "getThreshold h = helperStepThreshold h"

definition setThreshold :: "real \<Rightarrow> IOSStepCounterHelper \<Rightarrow> IOSStepCounterHelper" where
  "setThreshold threshold h = h\<lparr>helperStepThreshold := max 0.1 (min 1.0 threshold)\<rparr>"

subsection \<open>The service: storage, construction, threshold\<close>

definition getItem :: "env \<Rightarrow> (dateStr \<rightharpoonup> StepData) \<Rightarrow> dateStr \<Rightarrow> failure + StepData option" where
  "getItem e st d = (if readThrows e d then Inl StorageError else Inr (st d))"

text \<open>\<^verbatim>\<open>loadTodaysSteps\<close> up to its \<^verbatim>\<open>await\<close>: the read of today's record is issued. What
  follows the \<^verbatim>\<open>await\<close> is \<open>loadSettles\<close>: it assigns the count of the record read, or 0
  when there was none or the read threw.\<close>

definition loadTodaysSteps :: "env \<Rightarrow> StepCounterService \<Rightarrow> StepCounterService" where
  "loadTodaysSteps e s = s\<lparr>pendingLoad := Some (getItem e (storage s) (today e))\<rparr>"

definition loadSettles :: "StepCounterService \<Rightarrow> StepCounterService" where
  "loadSettles s =
     (case pendingLoad s of
        None \<Rightarrow> s
      | Some (Inr (Some stepData)) \<Rightarrow> s\<lparr>stepCount := steps stepData, pendingLoad := None\<rparr>
      | Some (Inr None) \<Rightarrow> s\<lparr>stepCount := 0, pendingLoad := None\<rparr>
      | Some (Inl err) \<Rightarrow> s\<lparr>stepCount := 0, pendingLoad := None\<rparr>)"

definition saveTodaysSteps :: "env \<Rightarrow> StepCounterService \<Rightarrow> StepCounterService" where
  "saveTodaysSteps e s =
     (if writeThrows e then s
      else s\<lparr>storage := (storage s)(today e \<mapsto>
             \<lparr>steps = stepCount s, date = today e, lastUpdate = now e\<rparr>)\<rparr>)"

definition notifyListener :: "StepCounterService \<Rightarrow> StepCounterService" where
  "notifyListener s =
     (if onStepCountUpdate s then s\<lparr>notified := notified s @ [stepCount s]\<rparr> else s)"

text \<open>The field initialisers followed by the constructor body. The helper singleton of a
  process that has just started is the fresh instance. The constructor leaves the load
  pending.\<close>

definition initialFields :: "platform \<Rightarrow> (dateStr \<rightharpoonup> StepData) \<Rightarrow> StepCounterService" where
  "initialFields p st = \<lparr>platformOS = p, stepCount = 0, lastMagnitude = 0, stepThreshold = 1.2,
     lastStepTime = 0, onStepCountUpdate = False, iosHelper = None, iosHealthService = False,
     storage = st, notified = [], pendingLoad = None\<rparr>"

definition constructor :: "env \<Rightarrow> platform \<Rightarrow> (dateStr \<rightharpoonup> StepData) \<Rightarrow> StepCounterService" where
  "constructor e p st =
     (let s = loadTodaysSteps e (initialFields p st)
      in if p = IOS then s\<lparr>iosHelper := Some getInstance, iosHealthService := True\<rparr> else s)"

definition setStepCountUpdateListener :: "StepCounterService \<Rightarrow> StepCounterService" where
  "setStepCountUpdateListener s = s\<lparr>onStepCountUpdate := True\<rparr>"

definition removeStepCountUpdateListener :: "StepCounterService \<Rightarrow> StepCounterService" where
  "removeStepCountUpdateListener s = s\<lparr>onStepCountUpdate := False\<rparr>"

definition getStepThreshold :: "StepCounterService \<Rightarrow> real" where
  "getStepThreshold s = stepThreshold s"

definition setStepThreshold :: "real \<Rightarrow> StepCounterService \<Rightarrow> StepCounterService" where
  "setStepThreshold threshold s = s\<lparr>stepThreshold := max 0.5 (min 3.0 threshold)\<rparr>"

text \<open>The clamp of the specification: a value below the range becomes its lower end, a
  value above it the upper end.\<close>

definition clamp :: "real \<Rightarrow> real \<Rightarrow> real \<Rightarrow> real" where
  "clamp v lo hi = (if v < lo then lo else if hi < v then hi else v)"

text \<open>An environment in a zone that keeps UTC: 4 October 2024, 00:00 UTC, which is day
  20000. Nothing throws.\<close>

definition env0 :: env where
  "env0 = \<lparr>now = 1728000000000, localTZA = (\<lambda>t. 0), localTZAofLocal = (\<lambda>t. 0),
     readThrows = (\<lambda>d. False), writeThrows = False\<rparr>"

subsection \<open>The hysteresis detector of the service\<close>

definition detectStep :: "env \<Rightarrow> real \<Rightarrow> StepCounterService \<Rightarrow> StepCounterService" where
  "detectStep e magnitude s =
     (let currentTime = now e;
          s1 = (if magnitude > stepThreshold s \<and> lastMagnitude s \<le> stepThreshold s
                   \<and> currentTime - lastStepTime s > minStepInterval
                then (let s2 = s\<lparr>stepCount := stepCount s + 1, lastStepTime := currentTime\<rparr>;
                          s3 = notifyListener s2
                      in if stepCount s3 mod 10 = 0 then saveTodaysSteps e s3 else s3)
                else s)
      in s1\<lparr>lastMagnitude := magnitude\<rparr>)"

text \<open>A stream of activity metrics, each with the environment of its callback, handed to
  \<^verbatim>\<open>detectStep\<close> one after the other; \<open>fires\<close> tells for each sample whether the
  counter moved.\<close>

fun feed :: "StepCounterService \<Rightarrow> (real \<times> env) list \<Rightarrow> StepCounterService" where
  "feed s [] = s"
| "feed s ((magnitude, e) # rest) = feed (detectStep e magnitude s) rest"

fun fires :: "StepCounterService \<Rightarrow> (real \<times> env) list \<Rightarrow> bool list" where
  "fires s [] = []"
| "fires s ((magnitude, e) # rest) =
     (stepCount (detectStep e magnitude s) \<noteq> stepCount s) # fires (detectStep e magnitude s) rest"

text \<open>The rule in the words of the specification: an event fires on a sample when the
  metric is above the threshold, the previous metric was not, and more than 200 ms have
  passed since the last accepted event.\<close>

fun hysteresis_events :: "real \<Rightarrow> real \<Rightarrow> int \<Rightarrow> (real \<times> int) list \<Rightarrow> bool list" where
  "hysteresis_events thr previous lastEvent [] = []"
| "hysteresis_events thr previous lastEvent ((metric, t) # rest) =
     (let fire = (metric > thr \<and> previous \<le> thr \<and> t - lastEvent > 200)
      in fire # hysteresis_events thr metric (if fire then t else lastEvent) rest)"

definition timed :: "(real \<times> env) list \<Rightarrow> (real \<times> int) list" where
  "timed xs = map (\<lambda>(magnitude, e). (magnitude, now e)) xs"

definition events :: "bool list \<Rightarrow> int" where
  "events bs = int (length (filter (\<lambda>b. b) bs))"

definition at_time :: "int \<Rightarrow> env" where
  "at_time t = env0\<lparr>now := t\<rparr>"

subsection \<open>The windowed peak detector of the iOS helper\<close>

definition detectStepFromAcceleration ::
    "env \<Rightarrow> real \<Rightarrow> real \<Rightarrow> real \<Rightarrow> IOSStepCounterHelper \<Rightarrow> IOSStepCounterHelper \<times> bool" where
  "detectStepFromAcceleration e x y z h =
     (let currentTime = now e;
          verticalAcceleration = \<bar>z\<bar>;
          pushed = stepBuffer h @ [verticalAcceleration];
          buf = (if length pushed > bufferSize then tl pushed else pushed);
          h1 = h\<lparr>stepBuffer := buf\<rparr>
      in if length buf < bufferSize then (h1, False)
         else (let average = foldl (+) 0 buf / real (length buf);
                   current = buf ! (length buf - 1);
                   previous = buf ! (length buf - 2);
                   isPeak = (current > previous
                             \<and> current > average + helperStepThreshold h1
                             \<and> currentTime - helperLastStepTime h1 > 300)
               in if isPeak
                  then (h1\<lparr>helperLastStepTime := currentTime,
                            helperStepCount := helperStepCount h1 + 1\<rparr>, True)
                  else (h1, False)))"

text \<open>A stream of samples handed to the helper; the second component lists what each
  call returned.\<close>

fun detectAll :: "IOSStepCounterHelper \<Rightarrow> ((real \<times> real \<times> real) \<times> env) list
    \<Rightarrow> IOSStepCounterHelper \<times> bool list" where
  "detectAll h [] = (h, [])"
| "detectAll h (((x, y, z), e) # rest) =
     (let (h1, stepDetected) = detectStepFromAcceleration e x y z h;
          (h2, more) = detectAll h1 rest
      in (h2, stepDetected # more))"

text \<open>The rule in the words of the specification, over the whole history of buffered
  values instead of a bounded buffer: nothing fires before 20 values have arrived; from then
  on an event fires when the newest value is above the one before it, above the mean of
  the last 20 values plus the sensitivity, and more than 300 ms after the last event.\<close>

definition mean :: "real list \<Rightarrow> real" where
  "mean xs = sum_list xs / real (length xs)"

definition peak :: "real \<Rightarrow> int \<Rightarrow> real list \<Rightarrow> int \<Rightarrow> bool" where
  "peak sens lastEvent hist t =
     (20 \<le> length hist
      \<and> hist ! (length hist - 1) > hist ! (length hist - 2)
      \<and> hist ! (length hist - 1) > mean (drop (length hist - 20) hist) + sens
      \<and> t - lastEvent > 300)"

fun windowed_events :: "real \<Rightarrow> int \<Rightarrow> real list \<Rightarrow> (real \<times> int) list \<Rightarrow> bool list" where
  "windowed_events sens lastEvent hist [] = []"
| "windowed_events sens lastEvent hist ((v, t) # rest) =
     (let fire = peak sens lastEvent (hist @ [v]) t
      in fire # windowed_events sens (if fire then t else lastEvent) (hist @ [v]) rest)"

definition vertical :: "((real \<times> real \<times> real) \<times> env) list \<Rightarrow> (real \<times> int) list" where
  "vertical xs = map (\<lambda>((x, y, z), e). (\<bar>z\<bar>, now e)) xs"

subsection \<open>The ledger operations of the service\<close>

text \<open>The test \<^verbatim>\<open>Platform.OS === 'ios' && this.iosHelper\<close>.\<close>

definition activeHelper :: "StepCounterService \<Rightarrow> IOSStepCounterHelper option" where
  "activeHelper s = (if platformOS s = IOS then iosHelper s else None)"

text \<open>The listener that \<^verbatim>\<open>startStepCounting\<close> registers with the accelerometer.\<close>

definition accelerometerListener ::
    "env \<Rightarrow> real \<Rightarrow> real \<Rightarrow> real \<Rightarrow> StepCounterService \<Rightarrow> StepCounterService" where
  "accelerometerListener e x y z s =
     (case activeHelper s of
        Some h \<Rightarrow>
          (let (h1, stepDetected) = detectStepFromAcceleration e x y z h;
               s1 = s\<lparr>iosHelper := Some h1\<rparr>
           in if stepDetected
              then (let s2 = s1\<lparr>stepCount := getStepCount h1\<rparr>;
                        s3 = notifyListener s2
                    in if stepCount s3 mod 10 = 0 then saveTodaysSteps e s3 else s3)
              else s1)
      | None \<Rightarrow> detectStep e (sqrt (x * x + y * y + z * z)) s)"

definition getCurrentStepCount :: "StepCounterService \<Rightarrow> int" where
  "getCurrentStepCount s =
     (case activeHelper s of Some h \<Rightarrow> getStepCount h | None \<Rightarrow> stepCount s)"

definition addSteps :: "env \<Rightarrow> int \<Rightarrow> StepCounterService \<Rightarrow> StepCounterService" where
  "addSteps e n s =
     (let s1 = (case activeHelper s of
                  Some h \<Rightarrow> (let h1 = helperAddSteps n h
                             in s\<lparr>iosHelper := Some h1, stepCount := getStepCount h1\<rparr>)
                | None \<Rightarrow> s\<lparr>stepCount := stepCount s + n\<rparr>)
      in notifyListener (saveTodaysSteps e s1))"

definition resetDailySteps :: "env \<Rightarrow> StepCounterService \<Rightarrow> StepCounterService" where
  "resetDailySteps e s =
     (let s1 = (case activeHelper s of
                  Some h \<Rightarrow> s\<lparr>iosHelper := Some (resetStepCount h)\<rparr>
                | None \<Rightarrow> s)
      in notifyListener (saveTodaysSteps e (s1\<lparr>stepCount := 0\<rparr>)))"

subsection \<open>Numbers in template strings, and the quotient of two counts\<close>

text \<open>How a template literal prints an integer: decimal digits, a minus sign first for a
  negative one.\<close>

definition digit :: "nat \<Rightarrow> char" where
  "digit d = ''0123456789'' ! d"

function decimal :: "nat \<Rightarrow> string \<Rightarrow> string" where
  "decimal n printed =
     (let printed1 = digit (n mod 10) # printed
      in if n div 10 = 0 then printed1 else decimal (n div 10) printed1)"
  by pat_completeness auto
termination
  by (relation "measure fst") auto

definition numberToString :: "int \<Rightarrow> string" where
  "numberToString i =
     (if 0 \<le> i then decimal (nat i) [] else CHR ''-'' # decimal (nat (- i)) [])"

text \<open>\<^verbatim>\<open>(difference / Math.max (a, b)) * 100\<close> on integer counts. A zero divisor gives
  \<^verbatim>\<open>NaN\<close> for \<^verbatim>\<open>0 / 0\<close> and an infinity otherwise, and \<^verbatim>\<open><=\<close> is false on
  \<^verbatim>\<open>NaN\<close>.\<close>

datatype jsnumber = Finite real | PosInfinity | NegInfinity | NaN

definition js_divide :: "int \<Rightarrow> int \<Rightarrow> jsnumber" where
  "js_divide a b =
     (if b \<noteq> 0 then Finite (real_of_int a / real_of_int b)
      else if a = 0 then NaN
      else if 0 < a then PosInfinity else NegInfinity)"

fun js_times :: "jsnumber \<Rightarrow> real \<Rightarrow> jsnumber" where
  "js_times (Finite x) k = Finite (x * k)"
| "js_times PosInfinity k = (if 0 < k then PosInfinity else if k < 0 then NegInfinity else NaN)"
| "js_times NegInfinity k = (if 0 < k then NegInfinity else if k < 0 then PosInfinity else NaN)"
| "js_times NaN k = NaN"

fun js_le :: "jsnumber \<Rightarrow> real \<Rightarrow> bool" where
  "js_le (Finite x) k = (x \<le> k)"
| "js_le PosInfinity k = False"
| "js_le NegInfinity k = True"
| "js_le NaN k = False"

fun js_gt :: "jsnumber \<Rightarrow> real \<Rightarrow> bool" where
  "js_gt (Finite x) k = (x > k)"
| "js_gt PosInfinity k = True"
| "js_gt NegInfinity k = False"
| "js_gt NaN k = False"

subsection \<open>The health app: synchronisation and comparison\<close>

text \<open>
  \<^verbatim>\<open>syncWithHealthApp\<close> and \<^verbatim>\<open>compareWithHealthApp\<close> call
  \<^verbatim>\<open>this.iosHealthService.isAvailable ()\<close> and
  \<^verbatim>\<open>this.iosHealthService.getStepsFromHealthApp ()\<close>. What the two calls answer is an
  argument here: either call returns a value or throws, and the thrown value is given as
  the text that \<^verbatim>\<open>${error}\<close> prints. (The class in \<^verbatim>\<open>ios-health-service.ts\<close> declares
  neither method, so against that class both calls throw a \<^verbatim>\<open>TypeError\<close>: the answer
  \<open>Throws\<close>.)
\<close>

datatype 'a answer = Throws string | Returns 'a

record health =
  isAvailable :: "bool answer"
  getStepsFromHealthApp :: "int option answer"

datatype syncSource = health_app | accelerometer | unavailable

record syncResult =
  success :: bool
  syncHealthAppSteps :: "int option"
  syncAccelerometerSteps :: int
  source :: syncSource
  message :: string

definition syncWithHealthApp ::
    "env \<Rightarrow> health \<Rightarrow> StepCounterService \<Rightarrow> StepCounterService \<times> syncResult" where
  "syncWithHealthApp e hp s =
     (let result = \<lparr>success = False, syncHealthAppSteps = None,
                     syncAccelerometerSteps = stepCount s, source = accelerometer,
                     message = ''Health app integration not available''\<rparr>
      in if platformOS s \<noteq> IOS \<or> \<not> iosHealthService s
         then (s, result\<lparr>source := unavailable,
                 message := ''iOS Health integration only available on iOS devices''\<rparr>)
         else (case isAvailable hp of
                 Throws error \<Rightarrow> (s, result\<lparr>message := ''Health app sync failed: '' @ error\<rparr>)
               | Returns healthAvailable \<Rightarrow>
                   if \<not> healthAvailable
                   then (s, result\<lparr>source := unavailable,
                           message := ''iOS Health app not available on this device''\<rparr>)
                   else (case getStepsFromHealthApp hp of
                           Throws error \<Rightarrow>
                             (s, result\<lparr>message := ''Health app sync failed: '' @ error\<rparr>)
                         | Returns None \<Rightarrow>
                             (s, result\<lparr>message :=
                                ''Health app data not accessible. Using motion sensors.''\<rparr>)
                         | Returns (Some healthSteps) \<Rightarrow>
                             (let s1 = notifyListener
                                         (saveTodaysSteps e (s\<lparr>stepCount := healthSteps\<rparr>))
                              in (s1, \<lparr>success = True,
                                       syncHealthAppSteps = Some healthSteps,
                                       syncAccelerometerSteps = stepCount s1,
                                       source = health_app,
                                       message = ''Synced '' @ numberToString healthSteps
                                         @ '' steps from iOS Health app''\<rparr>)))))"

record comparison =
  accelerometerSteps :: int
  healthAppSteps :: "int option"
  accuracy :: string
  recommendation :: string

text \<open>The method assigns no field and calls neither \<^verbatim>\<open>saveTodaysSteps\<close> nor the
  listener; like every method here it returns the state it leaves.\<close>

definition compareWithHealthApp ::
    "health \<Rightarrow> StepCounterService \<Rightarrow> StepCounterService \<times> comparison" where
  "compareWithHealthApp hp s =
     (if platformOS s \<noteq> IOS \<or> \<not> iosHealthService s
      then (s, \<lparr>accelerometerSteps = stepCount s, healthAppSteps = None,
                accuracy = ''unknown'',
                recommendation = ''iOS Health comparison only available on iOS devices''\<rparr>)
      else (case getStepsFromHealthApp hp of
              Throws error \<Rightarrow>
                (s, \<lparr>accelerometerSteps = stepCount s, healthAppSteps = None,
                     accuracy = ''error'',
                     recommendation = ''Comparison failed: '' @ error\<rparr>)
            | Returns None \<Rightarrow>
                (s, \<lparr>accelerometerSteps = stepCount s, healthAppSteps = None,
                     accuracy = ''unknown'',
                     recommendation = ''Health app data not available''\<rparr>)
            | Returns (Some healthSteps) \<Rightarrow>
                (let difference = \<bar>stepCount s - healthSteps\<bar>;
                     percentageDiff = js_times (js_divide difference (max (stepCount s) healthSteps)) 100
                 in if js_le percentageDiff 10
                    then (s, \<lparr>accelerometerSteps = stepCount s, healthAppSteps = Some healthSteps,
                              accuracy = ''similar'',
                              recommendation =
                                ''Motion sensor and Health app data are similar. Good accuracy!''\<rparr>)
                    else (s, \<lparr>accelerometerSteps = stepCount s, healthAppSteps = Some healthSteps,
                              accuracy = ''different'',
                              recommendation = ''Motion sensors: '' @ numberToString (stepCount s)
                                @ '', Health app: '' @ numberToString healthSteps
                                @ ''. Consider calibration.''\<rparr>))))"

subsection \<open>The HealthKit service: the mock reading and conflict resolution\<close>

record HealthKitPermissions =
  permSteps :: bool
  permHeartRate :: bool
  permActiveEnergy :: bool

record IOSHealthService =
  healthKitAvailable :: bool
  permissions :: HealthKitPermissions

record HealthData =
  hkSteps :: int
  hkDate :: dateStr
  hkSource :: string
  hkConfidence :: real

text \<open>\<open>random\<close> is what \<^verbatim>\<open>Math.random ()\<close> returned.\<close>

definition healthGetStepCount :: "real \<Rightarrow> IOSHealthService \<Rightarrow> dateStr \<Rightarrow> HealthData option" where
  "healthGetStepCount random hs d =
     (if \<not> healthKitAvailable hs then None
      else if \<not> permSteps (permissions hs) then None
      else (let mockSteps = \<lfloor>random * 10000\<rfloor> + 5000
            in Some \<lparr>hkSteps = mockSteps, hkDate = d, hkSource = ''iOS Health App (Mock)'',
                     hkConfidence = 0.95\<rparr>))"

definition syncWithHealthKit ::
    "real \<Rightarrow> IOSHealthService \<Rightarrow> int \<Rightarrow> dateStr \<Rightarrow> HealthData option" where
  "syncWithHealthKit random hs appSteps d =
     (case healthGetStepCount random hs d of
        None \<Rightarrow> None
      | Some healthKitData \<Rightarrow>
          if real_of_int (hkSteps healthKitData) > real_of_int appSteps * 1.2
          then Some healthKitData
          else Some \<lparr>hkSteps = appSteps, hkDate = d, hkSource = ''SihatAI App'',
                     hkConfidence = 1.0\<rparr>)"

subsection \<open>The history of the last days\<close>





subsection \<open>Calibration\<close>

text \<open>The body that runs once the 30 seconds are over.\<close>

definition calibrationComplete :: "real list \<Rightarrow> StepCounterService \<Rightarrow> StepCounterService" where
  "calibrationComplete samples s =
     (if length samples > 0
      then (let avgMagnitude = foldl (+) 0 samples / real (length samples);
                variance = foldl (\<lambda>acc val. acc + (val - avgMagnitude)\<^sup>2) 0 samples
                           / real (length samples);
                stdDev = sqrt variance;
                raised = avgMagnitude + (1.5 * stdDev)
            in s\<lparr>stepThreshold := max 0.8 (min 2.0 raised)\<rparr>)
      else s)"

text \<open>The calibration listener over the samples the accelerometer delivers. The second
  component tells whether the promise has been resolved; once the subscription is removed
  no further sample is taken.\<close>

fun calibrationListener :: "int \<Rightarrow> real list \<Rightarrow> ((real \<times> real \<times> real) \<times> env) list
    \<Rightarrow> StepCounterService \<Rightarrow> StepCounterService \<times> bool" where
  "calibrationListener startTime samples [] s = (s, False)"
| "calibrationListener startTime samples (((x, y, z), e) # rest) s =
     (let magnitude = sqrt (x * x + y * y + z * z);
          samples1 = samples @ [magnitude]
      in if now e - startTime > 30000
         then (calibrationComplete samples1 s, True)
         else calibrationListener startTime samples1 rest s)"

text \<open>\<open>sensorThrows\<close>: \<^verbatim>\<open>Accelerometer.setUpdateInterval\<close> or \<^verbatim>\<open>addListener\<close> throws; the
  \<^verbatim>\<open>catch\<close> resolves the promise at once.\<close>

definition calibrateStepDetection :: "env \<Rightarrow> bool \<Rightarrow> ((real \<times> real \<times> real) \<times> env) list
    \<Rightarrow> StepCounterService \<Rightarrow> StepCounterService \<times> bool" where
  "calibrateStepDetection e sensorThrows samples s =
     (let startTime = now e
      in if sensorThrows then (s, True) else calibrationListener startTime [] samples s)"

definition calibrateForUser :: "real list \<Rightarrow> IOSStepCounterHelper \<Rightarrow> IOSStepCounterHelper" where
  "calibrateForUser samples h =
     (if length samples < 10 then h
      else (let mean = foldl (+) 0 samples / real (length samples);
                squareDiffs = map (\<lambda>v. (v - mean)\<^sup>2) samples;
                avgSquareDiff = foldl (+) 0 squareDiffs / real (length samples);
                stdDev = sqrt avgSquareDiff
            in h\<lparr>helperStepThreshold := max 0.2 (min 0.8 (stdDev * 1.5))\<rparr>))"

text \<open>The statistics in the words of the specification, and the metrics a calibration
  session has captured when it completes (\<open>None\<close>: it has not completed).\<close>

definition population_stddev :: "real list \<Rightarrow> real" where
  "population_stddev xs = sqrt ((\<Sum>x\<leftarrow>xs. (x - mean xs)\<^sup>2) / real (length xs))"

fun captured :: "int \<Rightarrow> ((real \<times> real \<times> real) \<times> env) list \<Rightarrow> real list option" where
  "captured startTime [] = None"
| "captured startTime (((x, y, z), e) # rest) =
     (if now e - startTime > 30000 then Some [sqrt (x * x + y * y + z * z)]
      else map_option ((#) (sqrt (x * x + y * y + z * z))) (captured startTime rest))"

subsection \<open>The screen's reconciliation with the database row\<close>

text \<open>From \<^verbatim>\<open>loadUserData\<close> of the activity tracker screen: the part that reads today's
  row of \<^verbatim>\<open>step_data\<close> and brings the device counter up to it. The second component is
  the value handed to \<^verbatim>\<open>setDailySteps\<close>, if any.\<close>

datatype dbAnswer = DbError | DbNull | DbRow int

definition loadUserDataSteps ::
    "env \<Rightarrow> dbAnswer \<Rightarrow> StepCounterService \<Rightarrow> StepCounterService \<times> int option" where
  "loadUserDataSteps e answer s =
     (case answer of
        DbError \<Rightarrow> (s, Some (getCurrentStepCount s))
      | DbNull \<Rightarrow> (s, None)
      | DbRow dbSteps \<Rightarrow>
          (let deviceSteps = getCurrentStepCount s;
               maxSteps = max dbSteps deviceSteps
           in (if dbSteps > deviceSteps then addSteps e (dbSteps - deviceSteps) s else s,
               Some maxSteps)))"

subsection \<open>Reachable states\<close>

text \<open>A state that the constructor and the methods can reach: the helper and the health
  service are present exactly on iOS.\<close>

definition wellFormed :: "StepCounterService \<Rightarrow> bool" where
  "wellFormed s = ((iosHelper s \<noteq> None) = (platformOS s = IOS)
                   \<and> iosHealthService s = (platformOS s = IOS))"

subsection \<open>Concrete inputs\<close>

text \<open>A store that holds 500 steps for today; sample lists for calibration; calibration
  sessions of two samples, of one sample, and one that ends before the 30 seconds.\<close>

definition stored500 :: "dateStr \<rightharpoonup> StepData" where
  "stored500 = [20000 \<mapsto> \<lparr>steps = 500, date = 20000, lastUpdate = 1727990000000\<rparr>]"

definition tenHalves :: "real list" where
  "tenHalves = [0.5, 0.5, 0.5, 0.5, 0.5, 0.5, 0.5, 0.5, 0.5, 0.5]"

definition halfAndHalf :: "real list" where
  "halfAndHalf = [0, 1, 0, 1, 0, 1, 0, 1, 0, 1]"

definition twoSamples :: "((real \<times> real \<times> real) \<times> env) list" where
  "twoSamples = [((1, 0, 0), at_time 1728000000050), ((0, 0, 0), at_time 1728000030001)]"

definition oneSample :: "((real \<times> real \<times> real) \<times> env) list" where
  "oneSample = [((1, 0, 0), at_time 1728000030001)]"

definition unfinished :: "((real \<times> real \<times> real) \<times> env) list" where
  "unfinished = [((1, 0, 0), at_time 1728000000050), ((0, 0, 1), at_time 1728000000100)]"

text \<open>A health service that is available and reports a given count.\<close>

definition reporting :: "int \<Rightarrow> health" where
  "reporting n = \<lparr>isAvailable = Returns True, getStepsFromHealthApp = Returns (Some n)\<rparr>"

text \<open>The quotient that \<^verbatim>\<open>compareWithHealthApp\<close> computes, by name.\<close>

definition percentDiff :: "int \<Rightarrow> int \<Rightarrow> jsnumber" where
  "percentDiff l e = js_times (js_divide \<bar>l - e\<bar> (max l e)) 100"

text \<open>A HealthKit service after its permissions were requested; a health service with no
  data; an iOS service whose load has settled and to which 5000 steps were added.\<close>

definition granted :: IOSHealthService where
  "granted = \<lparr>healthKitAvailable = True,
     permissions = \<lparr>permSteps = True, permHeartRate = False, permActiveEnergy = True\<rparr>\<rparr>"

definition noData :: health where
  "noData = \<lparr>isAvailable = Returns True, getStepsFromHealthApp = Returns None\<rparr>"

definition counted5000 :: StepCounterService where
  "counted5000 = addSteps env0 5000 (loadSettles (constructor env0 IOS Map.empty))"




text \<open>A health service that declares neither \<^verbatim>\<open>isAvailable ()\<close> nor
  \<^verbatim>\<open>getStepsFromHealthApp ()\<close>, as the class in \<^verbatim>\<open>ios-health-service.ts\<close>: either call
  throws a \<^verbatim>\<open>TypeError\<close>, whose text is the engine's.\<close>

definition notDeclared :: "string \<Rightarrow> health" where
  "notDeclared typeError = \<lparr>isAvailable = Throws typeError,
     getStepsFromHealthApp = Throws typeError\<rparr>"

section \<open>The hysteresis detector\<close>

lemma detectStep_count:
  "stepCount (detectStep e m s) = stepCount s +
     (if m > stepThreshold s \<and> lastMagnitude s \<le> stepThreshold s
         \<and> now e - lastStepTime s > 200
      then 1 else 0)"
  by (simp add: detectStep_def Let_def notifyListener_def saveTodaysSteps_def
      minStepInterval_def)

lemma detectStep_threshold: "stepThreshold (detectStep e m s) = stepThreshold s"
  by (simp add: detectStep_def Let_def notifyListener_def saveTodaysSteps_def)

lemma detectStep_lastMagnitude: "lastMagnitude (detectStep e m s) = m"
  by (simp add: detectStep_def Let_def)

lemma detectStep_lastStepTime:
  "lastStepTime (detectStep e m s) =
     (if m > stepThreshold s \<and> lastMagnitude s \<le> stepThreshold s
         \<and> now e - lastStepTime s > 200
      then now e else lastStepTime s)"
  by (simp add: detectStep_def Let_def notifyListener_def saveTodaysSteps_def
      minStepInterval_def)

lemma fires_hysteresis_events:
  "fires s xs = hysteresis_events (stepThreshold s) (lastMagnitude s) (lastStepTime s) (timed xs)"
proof (induction xs arbitrary: s)
  case Nil
  show ?case by (simp add: timed_def)
next
  case (Cons a xs)
  obtain m e where a: "a = (m, e)" by (cases a)
  show ?case
    using Cons.IH [of "detectStep e m s"]
    by (simp add: a timed_def detectStep_count detectStep_threshold detectStep_lastMagnitude
        detectStep_lastStepTime Let_def)
qed

lemma feed_count: "stepCount (feed s xs) = stepCount s + events (fires s xs)"
proof (induction xs arbitrary: s)
  case Nil
  show ?case by (simp add: events_def)
next
  case (Cons a xs)
  obtain m e where a: "a = (m, e)" by (cases a)
  show ?case
    using Cons.IH [of "detectStep e m s"]
    by (simp add: a events_def detectStep_count)
qed

text \<open>No sample of a stream is accepted when each one is either not above the threshold
  or arrives within the refractory period of the last accepted event.\<close>

lemma feed_quiet:
  "\<forall>(m, e) \<in> set xs. m \<le> stepThreshold s \<or> now e - lastStepTime s \<le> 200
   \<Longrightarrow> lastStepTime (feed s xs) = lastStepTime s \<and> stepCount (feed s xs) = stepCount s"
proof (induction xs arbitrary: s)
  case Nil
  show ?case by simp
next
  case (Cons a xs)
  obtain m e where a: "a = (m, e)" by (cases a)
  have step: "lastStepTime (detectStep e m s) = lastStepTime s"
    "stepCount (detectStep e m s) = stepCount s"
    using Cons.prems by (auto simp: a detectStep_count detectStep_lastStepTime)
  have "\<forall>(m', e') \<in> set xs. m' \<le> stepThreshold (detectStep e m s)
          \<or> now e' - lastStepTime (detectStep e m s) \<le> 200"
    using Cons.prems by (auto simp: detectStep_threshold step)
  from Cons.IH [OF this] show ?case by (simp add: a step)
qed

lemma fresh_android:
  "stepThreshold (constructor env0 Android Map.empty) = 1.2"
  "lastMagnitude (constructor env0 Android Map.empty) = 0"
  "lastStepTime (constructor env0 Android Map.empty) = 0"
  "stepCount (constructor env0 Android Map.empty) = 0"
  by (simp_all add: constructor_def initialFields_def loadTodaysSteps_def getItem_def env0_def)

text \<open>
  Claim C1. For every state \<open>s\<close> of the service and every stream \<open>xs\<close> of activity metrics
  handed to \<^verbatim>\<open>detectStep\<close>:
  \<^item> one call raises the step count by exactly 1 when the metric is strictly above the
    threshold, the previous metric (\<open>lastMagnitude\<close>) was at or below it and more than
    200 ms have passed since the last accepted event, and leaves it unchanged otherwise;
  \<^item> over the stream, the samples on which the count moves are exactly the ones the rule of
    the specification selects, and the count grows by their number;
  \<^item> after an accepted rising edge, no sample that arrives within 200 ms of it is
    accepted, whatever its metric: the two rising edges give one event;
  \<^item> a stream whose metrics are all at or below the threshold gives no event.
\<close>

theorem C1_hysteresis_detector:
  "stepCount (detectStep e m s) = stepCount s +
     (if m > stepThreshold s \<and> lastMagnitude s \<le> stepThreshold s
         \<and> now e - lastStepTime s > 200
      then 1 else 0)
   \<and> fires s xs
       = hysteresis_events (stepThreshold s) (lastMagnitude s) (lastStepTime s) (timed xs)
   \<and> stepCount (feed s xs) = stepCount s + events (fires s xs)
   \<and> (m > stepThreshold s \<and> lastMagnitude s \<le> stepThreshold s
        \<and> now e - lastStepTime s > 200
        \<and> (\<forall>(m', e') \<in> set rest. now e' - now e \<le> 200)
       \<longrightarrow> stepCount (feed s ((m, e) # rest)) = stepCount s + 1)
   \<and> ((\<forall>(m', e') \<in> set xs. m' \<le> stepThreshold s)
       \<longrightarrow> stepCount (feed s xs) = stepCount s)"
proof (intro conjI impI)
  show "stepCount (detectStep e m s) = stepCount s +
     (if m > stepThreshold s \<and> lastMagnitude s \<le> stepThreshold s
         \<and> now e - lastStepTime s > 200
      then 1 else 0)"
    by (rule detectStep_count)
  show "fires s xs
       = hysteresis_events (stepThreshold s) (lastMagnitude s) (lastStepTime s) (timed xs)"
    by (rule fires_hysteresis_events)
  show "stepCount (feed s xs) = stepCount s + events (fires s xs)"
    by (rule feed_count)
next
  assume edge: "m > stepThreshold s \<and> lastMagnitude s \<le> stepThreshold s
        \<and> now e - lastStepTime s > 200
        \<and> (\<forall>(m', e') \<in> set rest. now e' - now e \<le> 200)"
  let ?s1 = "detectStep e m s"
  have accepted: "stepCount ?s1 = stepCount s + 1" "lastStepTime ?s1 = now e"
    using edge by (simp_all add: detectStep_count detectStep_lastStepTime)
  have "\<forall>(m', e') \<in> set rest. m' \<le> stepThreshold ?s1 \<or> now e' - lastStepTime ?s1 \<le> 200"
    using edge by (auto simp: accepted)
  from feed_quiet [OF this] show "stepCount (feed s ((m, e) # rest)) = stepCount s + 1"
    by (simp add: accepted)
next
  assume "\<forall>(m', e') \<in> set xs. m' \<le> stepThreshold s"
  then have "\<forall>(m', e') \<in> set xs. m' \<le> stepThreshold s \<or> now e' - lastStepTime s \<le> 200"
    by auto
  from feed_quiet [OF this] show "stepCount (feed s xs) = stepCount s" by simp
qed

text \<open>The scenarios of the specification on a service that has just been constructed
  (threshold 1.2): the metrics 0.5, 1.5, 0.5, 1.5 at 300 ms spacing give two events; two
  rising edges 100 ms apart give one; metrics at or below the threshold give none.\<close>

theorem C1_hysteresis_detector_witness:
  "stepCount (feed (constructor env0 Android Map.empty)
      [(0.5, at_time 1728000000000), (1.5, at_time 1728000000300),
       (0.5, at_time 1728000000600), (1.5, at_time 1728000000900)]) = 2
   \<and> stepCount (feed (constructor env0 Android Map.empty)
      [(1.5, at_time 1728000000000), (0.5, at_time 1728000000050),
       (1.5, at_time 1728000000100)]) = 1
   \<and> stepCount (feed (constructor env0 Android Map.empty)
      [(0.5, at_time 1728000000000), (1.2, at_time 1728000000300)]) = 0"
proof (intro conjI)
  let ?s = "constructor env0 Android Map.empty"
  let ?xs = "[(0.5, at_time 1728000000000), (1.5, at_time 1728000000300),
       (0.5, at_time 1728000000600), (1.5, at_time 1728000000900)]"
  note C1 = C1_hysteresis_detector [of "at_time 0" 0 ?s ?xs "[]"]
  have "stepCount (feed ?s ?xs) = stepCount ?s + events
          (hysteresis_events (stepThreshold ?s) (lastMagnitude ?s) (lastStepTime ?s) (timed ?xs))"
    using C1 [THEN conjunct2, THEN conjunct1] C1 [THEN conjunct2, THEN conjunct2, THEN conjunct1]
    by (simp only:)
  then show "stepCount (feed ?s ?xs) = 2"
    by (simp only: fresh_android) (simp add: timed_def at_time_def env0_def events_def)
next
  let ?s = "constructor env0 Android Map.empty"
  let ?rest = "[(0.5, at_time 1728000000050), (1.5, at_time 1728000000100)]"
  note C1 = C1_hysteresis_detector [of "at_time 1728000000000" "1.5" ?s "[]" ?rest]
  have "1.5 > stepThreshold ?s \<and> lastMagnitude ?s \<le> stepThreshold ?s
        \<and> now (at_time 1728000000000) - lastStepTime ?s > 200
        \<and> (\<forall>(m', e') \<in> set ?rest. now e' - now (at_time 1728000000000) \<le> 200)"
    by (simp only: fresh_android) (simp add: at_time_def env0_def)
  from C1 [THEN conjunct2, THEN conjunct2, THEN conjunct2, THEN conjunct1, THEN mp, OF this]
  show "stepCount (feed ?s ((1.5, at_time 1728000000000) # ?rest)) = 1"
    by (simp only: fresh_android)
next
  let ?s = "constructor env0 Android Map.empty"
  let ?xs = "[(0.5, at_time 1728000000000), (1.2, at_time 1728000000300)]"
  note C1 = C1_hysteresis_detector [of "at_time 0" 0 ?s ?xs "[]"]
  have "\<forall>(m', e') \<in> set ?xs. m' \<le> stepThreshold ?s"
    by (simp add: fresh_android)
  from C1 [THEN conjunct2, THEN conjunct2, THEN conjunct2, THEN conjunct2, THEN mp, OF this]
  show "stepCount (feed ?s ?xs) = 0"
    by (simp only: fresh_android)
qed

section \<open>The windowed peak detector\<close>

lemma foldl_plus: "foldl (+) a xs = a + sum_list (xs :: real list)"
  by (induction xs arbitrary: a) simp_all

lemma push_window:
  assumes "buf = drop (length hist - 20) hist"
  shows "(if length (buf @ [v]) > bufferSize then tl (buf @ [v]) else buf @ [v])
         = drop (length (hist @ [v]) - 20) (hist @ [v])"
proof (cases "length hist < 20")
  case True
  then show ?thesis using assms by (simp add: bufferSize_def)
next
  case False
  then have len: "length buf = 20" using assms by simp
  have suc: "Suc (length hist - 20) = length hist - 19" using False by arith
  have "tl (buf @ [v]) = tl buf @ [v]" using len by (cases buf) auto
  also have "tl buf = drop (Suc (length hist - 20)) hist"
    using assms by (simp add: drop_Suc tl_drop)
  finally show ?thesis using False len
    by (simp add: bufferSize_def suc)
qed

lemma detect_step:
  assumes "stepBuffer h = drop (length hist - 20) hist"
  shows "detectStepFromAcceleration e x y z h =
           (h\<lparr>stepBuffer := drop (length (hist @ [\<bar>z\<bar>]) - 20) (hist @ [\<bar>z\<bar>]),
              helperLastStepTime :=
                (if peak (helperStepThreshold h) (helperLastStepTime h) (hist @ [\<bar>z\<bar>]) (now e)
                 then now e else helperLastStepTime h),
              helperStepCount := helperStepCount h +
                (if peak (helperStepThreshold h) (helperLastStepTime h) (hist @ [\<bar>z\<bar>]) (now e)
                 then 1 else 0)\<rparr>,
            peak (helperStepThreshold h) (helperLastStepTime h) (hist @ [\<bar>z\<bar>]) (now e))"
proof -
  let ?hist1 = "hist @ [\<bar>z\<bar>]"
  let ?buf = "drop (length ?hist1 - 20) ?hist1"
  have buf: "(if length (stepBuffer h @ [\<bar>z\<bar>]) > bufferSize then tl (stepBuffer h @ [\<bar>z\<bar>])
              else stepBuffer h @ [\<bar>z\<bar>]) = ?buf"
    by (rule push_window [OF assms(1)])
  show ?thesis
  proof (cases "length ?hist1 < 20")
    case True
    then have np: "\<not> peak (helperStepThreshold h) (helperLastStepTime h) ?hist1 (now e)"
      by (simp add: peak_def)
    have short: "length ?buf < bufferSize" using True by (simp add: bufferSize_def)
    show ?thesis
      unfolding detectStepFromAcceleration_def Let_def buf
      using np short by simp
  next
    case False
    then have n20: "20 \<le> length ?hist1" by simp
    have l20: "length ?buf = 20" using n20 by simp
    have a19: "length ?hist1 - 20 + 19 = length ?hist1 - 1" using n20 by arith
    have a18: "length ?hist1 - 20 + 18 = length ?hist1 - 2" using n20 by arith
    have le: "length ?hist1 - 20 \<le> length ?hist1" by arith
    have cur: "?buf ! 19 = ?hist1 ! (length ?hist1 - 1)"
      using nth_drop [OF le, of 19] by (simp only: a19)
    have prev: "?buf ! 18 = ?hist1 ! (length ?hist1 - 2)"
      using nth_drop [OF le, of 18] by (simp only: a18)
    have avg: "foldl (+) 0 ?buf / real (length ?buf) = mean ?buf"
      by (simp add: mean_def foldl_plus)
    have full: "\<not> length ?buf < bufferSize" using l20 by (simp add: bufferSize_def)
    have idx: "length ?buf - 1 = 19" "length ?buf - 2 = 18" using l20 by simp_all
    show ?thesis
      unfolding detectStepFromAcceleration_def Let_def buf avg idx
      using n20 full
      by (simp only: cur prev peak_def if_False) auto
  qed
qed


lemma detectAll_spec:
  "stepBuffer h = drop (length hist - 20) hist \<Longrightarrow>
   snd (detectAll h xs) =
     windowed_events (helperStepThreshold h) (helperLastStepTime h) hist (vertical xs)
   \<and> helperStepCount (fst (detectAll h xs)) = helperStepCount h + events (snd (detectAll h xs))"
proof (induction xs arbitrary: h hist)
  case Nil
  show ?case by (simp add: vertical_def events_def)
next
  case (Cons a xs)
  obtain x y z e where a: "a = ((x, y, z), e)" by (cases a) auto
  let ?hist1 = "hist @ [\<bar>z\<bar>]"
  let ?fire = "peak (helperStepThreshold h) (helperLastStepTime h) ?hist1 (now e)"
  let ?h1 = "h\<lparr>stepBuffer := drop (length ?hist1 - 20) ?hist1,
              helperLastStepTime := (if ?fire then now e else helperLastStepTime h),
              helperStepCount := helperStepCount h + (if ?fire then 1 else 0)\<rparr>"
  have step: "detectStepFromAcceleration e x y z h = (?h1, ?fire)"
    by (rule detect_step [OF Cons.prems])
  have inv: "stepBuffer ?h1 = drop (length ?hist1 - 20) ?hist1" by simp
  note IH = Cons.IH [OF inv]
  have v: "vertical (a # xs) = (\<bar>z\<bar>, now e) # vertical xs" by (simp add: a vertical_def)
  have d: "detectAll h (a # xs) = (fst (detectAll ?h1 xs), ?fire # snd (detectAll ?h1 xs))"
    by (simp add: a step split: prod.splits)
  have w: "windowed_events (helperStepThreshold h) (helperLastStepTime h) hist
             ((\<bar>z\<bar>, now e) # vertical xs)
           = ?fire # windowed_events (helperStepThreshold h)
               (if ?fire then now e else helperLastStepTime h) ?hist1 (vertical xs)"
    by (simp only: windowed_events.simps Let_def)
  show ?case
    unfolding d v w using IH by (simp add: events_def)
qed

lemma windowed_events_quiet:
  "i < length ys \<Longrightarrow> length hist + i + 1 < 20 \<Longrightarrow> \<not> windowed_events sens l hist ys ! i"
proof (induction ys arbitrary: l hist i)
  case Nil
  then show ?case by simp
next
  case (Cons a ys)
  obtain v t where a: "a = (v, t)" by (cases a)
  show ?case
  proof (cases i)
    case 0
    with Cons.prems show ?thesis by (simp add: a Let_def peak_def)
  next
    case (Suc j)
    with Cons.prems have "j < length ys" "length (hist @ [v]) + j + 1 < 20" by simp_all
    from Cons.IH [OF this] show ?thesis by (simp add: a Suc Let_def)
  qed
qed


text \<open>
  Claim C2. For every helper whose buffer holds at most 20 values (the fresh instance, and
  every instance reached from it) and every stream \<open>xs\<close> of samples handed to
  \<^verbatim>\<open>detectStepFromAcceleration\<close>:
  \<^item> one call returns true exactly when the buffer it leaves holds 20 values, the newest of
    them (the \<open>\<bar>z\<bar>\<close> just pushed) is strictly greater than the one before it and strictly
    greater than the mean of the buffer plus the sensitivity, and more than 300 ms have
    passed since the last accepted event;
  \<^item> over the stream, the calls that return true are exactly the ones the rule of the
    specification selects on the history of all values;
  \<^item> every call returns false as long as fewer than 20 values have been buffered;
  \<^item> the helper's step count grows by the number of calls that returned true, and the
    buffer never holds more than 20 values.
\<close>

theorem C2_windowed_peak_detector:
  assumes "length (stepBuffer h) \<le> 20"
  shows "snd (detectStepFromAcceleration e x y z h)
           = (let buf = stepBuffer (fst (detectStepFromAcceleration e x y z h))
              in length buf = 20 \<and> buf ! 19 = \<bar>z\<bar> \<and> buf ! 19 > buf ! 18
                 \<and> buf ! 19 > mean buf + helperStepThreshold h
                 \<and> now e - helperLastStepTime h > 300)
         \<and> snd (detectAll h xs)
           = windowed_events (helperStepThreshold h) (helperLastStepTime h) (stepBuffer h)
               (vertical xs)
         \<and> (\<forall>i < length xs. length (stepBuffer h) + i + 1 < 20 \<longrightarrow> \<not> snd (detectAll h xs) ! i)
         \<and> helperStepCount (fst (detectAll h xs))
           = helperStepCount h + events (snd (detectAll h xs))
         \<and> length (stepBuffer (fst (detectStepFromAcceleration e x y z h))) \<le> 20"
proof -
  have inv: "stepBuffer h = drop (length (stepBuffer h) - 20) (stepBuffer h)"
    using assms by simp
  define hist1 where "hist1 = stepBuffer h @ [\<bar>z\<bar>]"
  define buf where "buf = drop (length hist1 - 20) hist1"
  let ?fire = "peak (helperStepThreshold h) (helperLastStepTime h) hist1 (now e)"
  have sb: "stepBuffer (fst (detectStepFromAcceleration e x y z h)) = buf"
    and sn: "snd (detectStepFromAcceleration e x y z h) = ?fire"
    unfolding hist1_def buf_def by (simp_all add: detect_step [OF inv])
  have one: "?fire = (length buf = 20 \<and> buf ! 19 = \<bar>z\<bar> \<and> buf ! 19 > buf ! 18
                 \<and> buf ! 19 > mean buf + helperStepThreshold h
                 \<and> now e - helperLastStepTime h > 300)"
  proof (cases "length hist1 < 20")
    case True
    then have "length buf < 20" by (simp add: buf_def)
    with True show ?thesis by (simp add: peak_def)
  next
    case False
    then have n20: "20 \<le> length hist1" by simp
    have le: "length hist1 - 20 \<le> length hist1" by arith
    have a19: "length hist1 - 20 + 19 = length hist1 - 1" using n20 by arith
    have a18: "length hist1 - 20 + 18 = length hist1 - 2" using n20 by arith
    have cur: "buf ! 19 = hist1 ! (length hist1 - 1)"
      unfolding buf_def using nth_drop [OF le, of 19] by (simp only: a19)
    have prev: "buf ! 18 = hist1 ! (length hist1 - 2)"
      unfolding buf_def using nth_drop [OF le, of 18] by (simp only: a18)
    have lastv: "hist1 ! (length hist1 - 1) = \<bar>z\<bar>" by (simp add: hist1_def)
    have l20: "length buf = 20" using n20 by (simp add: buf_def)
    have "?fire = (hist1 ! (length hist1 - 1) > hist1 ! (length hist1 - 2)
                   \<and> hist1 ! (length hist1 - 1) > mean buf + helperStepThreshold h
                   \<and> now e - helperLastStepTime h > 300)"
      using n20 by (simp add: peak_def buf_def)
    also have "\<dots> = (buf ! 19 > buf ! 18 \<and> buf ! 19 > mean buf + helperStepThreshold h
                   \<and> now e - helperLastStepTime h > 300)"
      by (simp only: cur prev)
    finally show ?thesis using l20 cur lastv by simp
  qed
  have spec: "snd (detectAll h xs)
           = windowed_events (helperStepThreshold h) (helperLastStepTime h) (stepBuffer h)
               (vertical xs)"
    and count: "helperStepCount (fst (detectAll h xs))
           = helperStepCount h + events (snd (detectAll h xs))"
    using detectAll_spec [OF inv, of xs] by simp_all
  have quiet: "\<forall>i < length xs. length (stepBuffer h) + i + 1 < 20 \<longrightarrow> \<not> snd (detectAll h xs) ! i"
  proof (intro allI impI)
    fix i assume "i < length xs" "length (stepBuffer h) + i + 1 < 20"
    then show "\<not> snd (detectAll h xs) ! i"
      unfolding spec by (intro windowed_events_quiet) (simp_all add: vertical_def)
  qed
  have bound: "length buf \<le> 20" by (simp add: buf_def)
  from one spec quiet count bound show ?thesis unfolding sn sb Let_def by blast
qed

text \<open>On the fresh helper (sensitivity 0.3): eighteen samples at rest, then \<open>\<bar>z\<bar>\<close> =
  2, 1, 2, 1, 3 at 50 ms spacing. The twentieth call finds a full buffer but no rise; the
  twenty-first is a peak; the last rises again within 300 ms of it.\<close>

theorem C2_windowed_peak_detector_witness:
  "length (stepBuffer getInstance) \<le> 20
   \<and> snd (detectAll getInstance
       [((0, 0, 0), at_time 1728000000000), ((0, 0, 0), at_time 1728000000050),
        ((0, 0, 0), at_time 1728000000100), ((0, 0, 0), at_time 1728000000150),
        ((0, 0, 0), at_time 1728000000200), ((0, 0, 0), at_time 1728000000250),
        ((0, 0, 0), at_time 1728000000300), ((0, 0, 0), at_time 1728000000350),
        ((0, 0, 0), at_time 1728000000400), ((0, 0, 0), at_time 1728000000450),
        ((0, 0, 0), at_time 1728000000500), ((0, 0, 0), at_time 1728000000550),
        ((0, 0, 0), at_time 1728000000600), ((0, 0, 0), at_time 1728000000650),
        ((0, 0, 0), at_time 1728000000700), ((0, 0, 0), at_time 1728000000750),
        ((0, 0, 0), at_time 1728000000800), ((0, 0, 0), at_time 1728000000850),
        ((0, 0, 2), at_time 1728000000900), ((0, 0, - 1), at_time 1728000000950),
        ((0, 0, 2), at_time 1728000001000), ((0, 0, 1), at_time 1728000001050),
        ((0, 0, - 3), at_time 1728000001100)])
     = [False, False, False, False, False, False, False, False, False, False,
        False, False, False, False, False, False, False, False, False, False,
        True, False, False]"
proof -
  have short: "length (stepBuffer getInstance) \<le> 20" by (simp add: getInstance_def)
  show ?thesis
    using short
    by (simp only: C2_windowed_peak_detector [OF short, THEN conjunct2, THEN conjunct1])
       (simp add: getInstance_def vertical_def at_time_def env0_def peak_def mean_def)
qed

section \<open>Restart and the persisted count\<close>

lemma constructor_generic_restart:
  "p \<noteq> IOS \<Longrightarrow> st (today e) = Some r \<Longrightarrow> \<not> readThrows e (today e)
   \<Longrightarrow> getCurrentStepCount (loadSettles (constructor e p st)) = steps r"
  by (simp add: constructor_def initialFields_def loadTodaysSteps_def loadSettles_def
      getItem_def getCurrentStepCount_def activeHelper_def)

lemma constructor_wellFormed: "wellFormed (constructor e p st)"
  by (simp add: constructor_def initialFields_def loadTodaysSteps_def wellFormed_def Let_def)

lemma loadSettles_wellFormed: "wellFormed (loadSettles s) = wellFormed s"
  by (simp add: loadSettles_def wellFormed_def split: option.splits sum.splits)

lemma loadUserDataSteps_max:
  "getCurrentStepCount (fst (loadUserDataSteps e (DbRow p) s)) = max p (getCurrentStepCount s)"
  by (simp add: loadUserDataSteps_def Let_def addSteps_def getCurrentStepCount_def
      activeHelper_def notifyListener_def saveTodaysSteps_def helperAddSteps_def getStepCount_def
      split: option.splits)

lemma today_env0: "today env0 = 20000"
  by (simp add: today_def env0_def msPerDay_def)

lemma restarted:
  "stepCount (loadSettles (constructor env0 p stored500)) = 500"
  "platformOS (loadSettles (constructor env0 p stored500)) = p"
  "iosHealthService (loadSettles (constructor env0 p stored500)) = (p = IOS)"
  "iosHelper (loadSettles (constructor env0 p stored500))
     = (if p = IOS then Some getInstance else None)"
  "storage (loadSettles (constructor env0 p stored500)) = stored500"
  "onStepCountUpdate (loadSettles (constructor env0 p stored500)) = False"
  by (simp_all add: constructor_def initialFields_def loadTodaysSteps_def loadSettles_def
      getItem_def stored500_def Let_def env0_def today_def msPerDay_def)

text \<open>
  Claim C3 says that after initialization with a persisted record for today holding \<open>P\<close>
  steps, \<^verbatim>\<open>getCurrentStepCount ()\<close> returns \<open>P\<close> on the generic and on the iOS path. The
  generic path does so once the load has settled (\<open>constructor_generic_restart\<close>), and the
  screen's reconciliation with the database row brings the counter to the maximum on both
  paths (\<open>loadUserDataSteps_max\<close>). On iOS the load puts the persisted 500 into
  \<open>stepCount\<close>, but \<^verbatim>\<open>getCurrentStepCount\<close> reads the helper's counter, which starts at 0
  and is not advanced: it returns 0, before the load has settled and after. The next change
  of the helper's counter overwrites \<open>stepCount\<close>, and the persisted record with it: one
  manual step leaves the record at 1.
\<close>

theorem C3_ios_restart_ignores_persisted:
  "stepCount (loadSettles (constructor env0 IOS stored500)) = 500
   \<and> getCurrentStepCount (constructor env0 IOS stored500) = 0
   \<and> getCurrentStepCount (loadSettles (constructor env0 IOS stored500)) = 0
   \<and> getCurrentStepCount (loadSettles (constructor env0 Android stored500)) = 500
   \<and> stepCount (addSteps env0 1 (loadSettles (constructor env0 IOS stored500))) = 1
   \<and> storage (addSteps env0 1 (loadSettles (constructor env0 IOS stored500))) 20000
       = Some \<lparr>steps = 1, date = 20000, lastUpdate = 1728000000000\<rparr>"
proof -
  have pending: "getCurrentStepCount (constructor env0 IOS stored500) = 0"
    by (simp add: constructor_def initialFields_def loadTodaysSteps_def getCurrentStepCount_def
        activeHelper_def getInstance_def getStepCount_def)
  have settled: "getCurrentStepCount (loadSettles (constructor env0 p stored500))
      = (if p = IOS then 0 else 500)" for p
    by (simp add: getCurrentStepCount_def activeHelper_def restarted getInstance_def
        getStepCount_def)
  have added: "stepCount (addSteps env0 1 (loadSettles (constructor env0 IOS stored500))) = 1"
    "storage (addSteps env0 1 (loadSettles (constructor env0 IOS stored500))) 20000
       = Some \<lparr>steps = 1, date = 20000, lastUpdate = 1728000000000\<rparr>"
    by (simp_all add: addSteps_def activeHelper_def restarted helperAddSteps_def
        getInstance_def getStepCount_def notifyListener_def saveTodaysSteps_def Let_def
        today_env0)
       (simp_all add: env0_def)
  from pending settled [of IOS] settled [of Android] added show ?thesis
    by (simp add: restarted)
qed

section \<open>Calibration\<close>

lemma foldl_plus_map:
  "foldl (\<lambda>acc val. acc + f val) a xs = (a :: real) + sum_list (map f (xs :: real list))"
  by (induction xs arbitrary: a) (simp_all add: add.assoc)

lemma max_min_clamp: "lo \<le> hi \<Longrightarrow> max lo (min hi v) = clamp v lo hi"
  by (auto simp: clamp_def max_def min_def)

lemma calibrationComplete_eq:
  "ms \<noteq> [] \<Longrightarrow> calibrationComplete ms s
     = s\<lparr>stepThreshold := clamp (mean ms + 1.5 * population_stddev ms) 0.8 2.0\<rparr>"
  by (simp add: calibrationComplete_def Let_def foldl_plus foldl_plus_map mean_def
      population_stddev_def max_min_clamp)

lemma captured_nonempty: "captured startTime samples = Some ms \<Longrightarrow> ms \<noteq> []"
  by (induction startTime samples arbitrary: ms rule: captured.induct) (auto split: if_splits)

lemma calibrationListener_captured:
  "calibrationListener startTime acc samples s =
     (case captured startTime samples of
        None \<Rightarrow> (s, False)
      | Some ms \<Rightarrow> (calibrationComplete (acc @ ms) s, True))"
proof (induction startTime acc samples s rule: calibrationListener.induct)
  case (1 startTime samples s)
  show ?case by simp
next
  case (2 startTime samples x y z e rest s)
  then show ?case
    by (cases "now e - startTime > 30000") (auto simp: Let_def split: option.splits)
qed

lemma calibrateForUser_eq:
  "10 \<le> length xs \<Longrightarrow> calibrateForUser xs h
     = h\<lparr>helperStepThreshold := clamp (1.5 * population_stddev xs) 0.2 0.8\<rparr>"
  by (simp add: calibrateForUser_def Let_def foldl_plus mean_def population_stddev_def
      max_min_clamp mult.commute)

text \<open>
  Claim C4, amended: when a generic calibration session completes, the new threshold of the
  hysteresis detector is the mean of the captured metrics plus 1.5 times their population
  standard deviation, clamped to [0.8, 2.0]. \<^verbatim>\<open>calibrateForUser\<close> of the iOS helper, given
  at least 10 samples, sets the sensitivity to 1.5 times the population standard deviation
  alone, clamped to [0.2, 0.8]: the mean is not added (the windowed detector adds the mean
  of its buffer when it compares).
\<close>

theorem C4_calibration_result:
  "(captured (now e) samples = Some ms \<longrightarrow>
      calibrateStepDetection e False samples s
        = (s\<lparr>stepThreshold := clamp (mean ms + 1.5 * population_stddev ms) 0.8 2.0\<rparr>, True))
   \<and> (10 \<le> length xs \<longrightarrow>
      calibrateForUser xs h
        = h\<lparr>helperStepThreshold := clamp (1.5 * population_stddev xs) 0.2 0.8\<rparr>)"
proof (intro conjI impI)
  assume c: "captured (now e) samples = Some ms"
  then have "ms \<noteq> []" by (rule captured_nonempty)
  then show "calibrateStepDetection e False samples s
        = (s\<lparr>stepThreshold := clamp (mean ms + 1.5 * population_stddev ms) 0.8 2.0\<rparr>, True)"
    by (simp add: calibrateStepDetection_def calibrationListener_captured c calibrationComplete_eq)
next
  assume "10 \<le> length xs"
  then show "calibrateForUser xs h
        = h\<lparr>helperStepThreshold := clamp (1.5 * population_stddev xs) 0.2 0.8\<rparr>"
    by (rule calibrateForUser_eq)
qed

lemma tenHalves_stats: "mean tenHalves = 0.5" "population_stddev tenHalves = 0" "length tenHalves = 10"
  by (simp_all add: tenHalves_def mean_def population_stddev_def)

text \<open>
  Claim C4, as stated, gives one formula for both paths: mean plus 1.5 standard deviations,
  clamped. On the iOS path it fails: ten samples of 0.5 have mean 0.5 and deviation 0, and
  \<^verbatim>\<open>calibrateForUser\<close> stores 0.2, not 0.5.
\<close>

theorem C4_counterexample:
  "getThreshold (calibrateForUser tenHalves getInstance)
     \<noteq> clamp (mean tenHalves + 1.5 * population_stddev tenHalves) 0.2 0.8"
proof -
  have "getThreshold (calibrateForUser tenHalves getInstance) = 0.2"
    by (simp add: calibrateForUser_eq tenHalves_stats getThreshold_def clamp_def)
  then show ?thesis by (simp add: tenHalves_stats clamp_def)
qed


lemma sqrt_quarter: "sqrt (1 / 4) = 1 / 2"
  by (rule real_sqrt_unique) (simp_all add: power2_eq_square)

lemma halfAndHalf_stats: "population_stddev halfAndHalf = 1 / 2" "length halfAndHalf = 10"
  by (simp_all add: halfAndHalf_def mean_def population_stddev_def power2_eq_square sqrt_quarter)

lemma twoSamples_captured: "captured (now env0) twoSamples = Some [1, 0]"
  by (simp add: twoSamples_def at_time_def env0_def)

lemma two_stats: "mean [1, 0] = 1 / 2" "population_stddev [1, 0] = 1 / 2"
  by (simp_all add: mean_def population_stddev_def power2_eq_square sqrt_quarter)

text \<open>A generic session that captures the magnitudes 1 and 0 sets the threshold to
  0.5 + 1.5 \<open>\<cdot>\<close> 0.5 = 1.25; ten iOS samples alternating 0 and 1 set the sensitivity to
  1.5 \<open>\<cdot>\<close> 0.5 = 0.75.\<close>

theorem C4_calibration_result_witness:
  "captured (now env0) twoSamples = Some [1, 0]
   \<and> getStepThreshold (fst (calibrateStepDetection env0 False twoSamples
        (constructor env0 Android Map.empty))) = 1.25
   \<and> 10 \<le> length halfAndHalf
   \<and> getThreshold (calibrateForUser halfAndHalf getInstance) = 0.75"
proof -
  note C4 = C4_calibration_result [of env0 twoSamples "[1, 0]"
      "constructor env0 Android Map.empty" halfAndHalf getInstance]
  have len: "10 \<le> length halfAndHalf" by (simp add: halfAndHalf_stats)
  have a: "getStepThreshold (fst (calibrateStepDetection env0 False twoSamples
        (constructor env0 Android Map.empty))) = 1.25"
    by (simp add: C4 [THEN conjunct1, THEN mp, OF twoSamples_captured] getStepThreshold_def
        two_stats clamp_def)
  have b: "getThreshold (calibrateForUser halfAndHalf getInstance) = 0.75"
    by (simp add: C4 [THEN conjunct2, THEN mp, OF len] getThreshold_def halfAndHalf_stats
        clamp_def)
  from twoSamples_captured a len b show ?thesis by simp
qed

lemma oneSample_captured: "captured (now env0) oneSample = Some [1]"
  by (simp add: oneSample_def at_time_def env0_def)

lemma one_stats: "mean [1] = 1" "population_stddev [1] = 0"
  by (simp_all add: mean_def population_stddev_def)

lemma calibrate_oneSample:
  "getStepThreshold (fst (calibrateStepDetection env0 False oneSample
      (constructor env0 Android Map.empty))) = 1"
  by (simp add: calibrateStepDetection_def calibrationListener_captured oneSample_captured
      calibrationComplete_eq getStepThreshold_def one_stats clamp_def)

text \<open>
  Claim C5, as stated, covers every calibration run that captures fewer than 10 samples. It
  fails on the generic path: a session whose only sample arrives after the 30 seconds
  captures one metric and moves the threshold from 1.2 to 1.
\<close>

theorem C5_counterexample:
  "captured (now env0) oneSample = Some [1] \<and> length [1 :: real] < 10
   \<and> getStepThreshold (fst (calibrateStepDetection env0 False oneSample
        (constructor env0 Android Map.empty)))
      \<noteq> getStepThreshold (constructor env0 Android Map.empty)"
  by (simp add: oneSample_captured calibrate_oneSample)
     (simp add: getStepThreshold_def fresh_android)

text \<open>
  Claim C5, amended: \<^verbatim>\<open>calibrateForUser\<close> with fewer than 10 samples leaves the helper,
  its threshold included, exactly unchanged, and returns normally. The generic
  \<^verbatim>\<open>calibrateStepDetection\<close> has no minimum of 10 (its guard is
  \<^verbatim>\<open>samples.length > 0\<close>): it leaves the service unchanged while the session has not
  completed, and when the sensor cannot be started; a session that completes has captured
  at least one metric and recomputes the threshold from the captured metrics, however few.
  Neither path raises an error.
\<close>

theorem C5_insufficient_data:
  "(length xs < 10 \<longrightarrow> calibrateForUser xs h = h)
   \<and> (captured (now e) samples = None \<longrightarrow>
        calibrateStepDetection e False samples s = (s, False))
   \<and> calibrateStepDetection e True samples s = (s, True)
   \<and> (captured (now e) samples = Some ms \<longrightarrow>
        1 \<le> length ms
        \<and> calibrateStepDetection e False samples s = (calibrationComplete ms s, True)
        \<and> getStepThreshold (calibrationComplete ms s)
            = clamp (mean ms + 1.5 * population_stddev ms) 0.8 2.0)"
proof (intro conjI impI)
  assume "length xs < 10"
  then show "calibrateForUser xs h = h" by (simp add: calibrateForUser_def)
next
  assume "captured (now e) samples = None"
  then show "calibrateStepDetection e False samples s = (s, False)"
    by (simp add: calibrateStepDetection_def calibrationListener_captured)
next
  show "calibrateStepDetection e True samples s = (s, True)"
    by (simp add: calibrateStepDetection_def)
next
  assume c: "captured (now e) samples = Some ms"
  then have ne: "ms \<noteq> []" by (rule captured_nonempty)
  then show "1 \<le> length ms" by (cases ms) simp_all
  show "calibrateStepDetection e False samples s = (calibrationComplete ms s, True)"
    by (simp add: calibrateStepDetection_def calibrationListener_captured c)
  show "getStepThreshold (calibrationComplete ms s)
            = clamp (mean ms + 1.5 * population_stddev ms) 0.8 2.0"
    by (simp add: calibrationComplete_eq [OF ne] getStepThreshold_def)
qed

theorem C5_insufficient_data_witness:
  "length [1, 2, 3 :: real] < 10 \<and> calibrateForUser [1, 2, 3] getInstance = getInstance
   \<and> captured (now env0) unfinished = None
   \<and> calibrateStepDetection env0 False unfinished (constructor env0 Android Map.empty)
       = (constructor env0 Android Map.empty, False)
   \<and> captured (now env0) oneSample = Some [1]
   \<and> getStepThreshold (fst (calibrateStepDetection env0 False oneSample
        (constructor env0 Android Map.empty))) = 1"
proof -
  have l: "length [1, 2, 3 :: real] < 10" by simp
  have u: "captured (now env0) unfinished = None"
    by (simp add: unfinished_def at_time_def env0_def)
  note A = C5_insufficient_data [of "[1, 2, 3]" getInstance env0 unfinished
      "constructor env0 Android Map.empty" "[1]"]
  note B = C5_insufficient_data [of "[1, 2, 3]" getInstance env0 oneSample
      "constructor env0 Android Map.empty" "[1]"]
  have a: "calibrateForUser [1, 2, 3] getInstance = getInstance"
    by (rule A [THEN conjunct1, THEN mp, OF l])
  have b: "calibrateStepDetection env0 False unfinished (constructor env0 Android Map.empty)
       = (constructor env0 Android Map.empty, False)"
    by (rule A [THEN conjunct2, THEN conjunct1, THEN mp, OF u])
  have c: "getStepThreshold (fst (calibrateStepDetection env0 False oneSample
        (constructor env0 Android Map.empty))) = 1"
    using B [THEN conjunct2, THEN conjunct2, THEN conjunct2, THEN mp, OF oneSample_captured]
    by (simp add: one_stats clamp_def)
  from l a u b oneSample_captured c show ?thesis by simp
qed

section \<open>Sensitivity clamping\<close>

text \<open>
  Claim C6, as stated: setting the hysteresis detector's sensitivity stores
  \<open>clamp v 0.1 1.0\<close> and setting the windowed detector's sensitivity stores
  \<open>clamp v 0.2 0.8\<close>. It fails: \<^verbatim>\<open>setStepThreshold (2)\<close> on the hysteresis detector
  stores 2, and \<^verbatim>\<open>setThreshold (0.1)\<close> on the windowed detector stores 0.1.
\<close>

theorem C6_counterexample:
  "getStepThreshold (setStepThreshold 2 (constructor env0 Android Map.empty)) \<noteq> clamp 2 0.1 1.0
   \<and> getThreshold (setThreshold 0.1 getInstance) \<noteq> clamp 0.1 0.2 0.8"
  by (simp add: getStepThreshold_def setStepThreshold_def getThreshold_def setThreshold_def
      clamp_def)

text \<open>
  Claim C6, amended: for every input value \<open>v\<close>, \<^verbatim>\<open>setStepThreshold\<close> of the hysteresis
  detector stores \<open>clamp v 0.5 3.0\<close> and \<^verbatim>\<open>setThreshold\<close> of the windowed detector
  stores \<open>clamp v 0.1 1.0\<close>; after either call the stored threshold lies in that range.
\<close>

theorem C6_sensitivity_clamping:
  "getStepThreshold (setStepThreshold v s) = clamp v 0.5 3.0
   \<and> 0.5 \<le> getStepThreshold (setStepThreshold v s)
   \<and> getStepThreshold (setStepThreshold v s) \<le> 3.0
   \<and> getThreshold (setThreshold v h) = clamp v 0.1 1.0
   \<and> 0.1 \<le> getThreshold (setThreshold v h)
   \<and> getThreshold (setThreshold v h) \<le> 1.0"
  by (simp add: getStepThreshold_def setStepThreshold_def getThreshold_def setThreshold_def
      clamp_def max_def min_def)

section \<open>The history reader\<close>










section \<open>The reconciliation advisor\<close>

lemma percentDiff_finite:
  "max l e \<noteq> 0 \<Longrightarrow> percentDiff l e = Finite (real_of_int \<bar>l - e\<bar> / real_of_int (max l e) * 100)"
  by (simp add: percentDiff_def js_divide_def)

lemma compare_cases:
  "snd (compareWithHealthApp hp s) =
     (if platformOS s \<noteq> IOS \<or> \<not> iosHealthService s
      then \<lparr>accelerometerSteps = stepCount s, healthAppSteps = None, accuracy = ''unknown'',
            recommendation = ''iOS Health comparison only available on iOS devices''\<rparr>
      else case getStepsFromHealthApp hp of
             Throws msg \<Rightarrow>
               \<lparr>accelerometerSteps = stepCount s, healthAppSteps = None, accuracy = ''error'',
                  recommendation = ''Comparison failed: '' @ msg\<rparr>
           | Returns None \<Rightarrow>
               \<lparr>accelerometerSteps = stepCount s, healthAppSteps = None,
                  accuracy = ''unknown'', recommendation = ''Health app data not available''\<rparr>
           | Returns (Some e) \<Rightarrow>
               if js_le (percentDiff (stepCount s) e) 10
               then \<lparr>accelerometerSteps = stepCount s, healthAppSteps = Some e,
                     accuracy = ''similar'',
                     recommendation =
                       ''Motion sensor and Health app data are similar. Good accuracy!''\<rparr>
               else \<lparr>accelerometerSteps = stepCount s, healthAppSteps = Some e,
                     accuracy = ''different'',
                     recommendation = ''Motion sensors: '' @ numberToString (stepCount s)
                       @ '', Health app: '' @ numberToString e @ ''. Consider calibration.''\<rparr>)"
  by (simp add: compareWithHealthApp_def percentDiff_def Let_def
      split: answer.splits option.splits)

lemma syncWithHealthKit_choice:
  "healthGetStepCount random hs d = Some hk \<Longrightarrow>
   syncWithHealthKit random hs l d =
     (if real_of_int (hkSteps hk) > real_of_int l * 1.2 then Some hk
      else Some \<lparr>hkSteps = l, hkDate = d, hkSource = ''SihatAI App'', hkConfidence = 1\<rparr>)"
  by (simp add: syncWithHealthKit_def)

text \<open>
  Claim C8, amended. The code has no single operation that rates the difference and
  chooses a source; it has two, and neither calls the other.
  \<^item> \<^verbatim>\<open>compareWithHealthApp\<close> chooses no source. Off iOS it answers \<open>unknown\<close>. On iOS,
    when the call for the external count throws it answers \<open>error\<close> with the error's text,
    and when the health service has no count it answers \<open>unknown\<close>; in all three cases the
    result carries no external count. Given an external count \<open>e\<close> with \<open>max l e \<noteq> 0\<close>, it
    computes \<open>percentDiff = \<bar>l - e\<bar> / max l e \<cdot> 100\<close> and answers \<open>similar\<close>, with good
    accuracy, when \<open>percentDiff \<le> 10\<close>, and otherwise \<open>different\<close> with a rationale that
    holds both raw numbers and the suggestion to calibrate, whether or not \<open>e > l \<cdot> 1.2\<close>.
  \<^item> \<^verbatim>\<open>syncWithHealthKit\<close> rates nothing and gives no rationale. It returns nothing when
    HealthKit has no reading; otherwise it returns the external reading exactly when its
    count is greater than \<open>l \<cdot> 1.2\<close>, and else a record of the local count \<open>l\<close> alone.
\<close>

theorem C8_reconciliation_advisor:
  "((platformOS s \<noteq> IOS \<or> \<not> iosHealthService s) \<and> stepCount s = l \<longrightarrow>
      snd (compareWithHealthApp hp s)
        = \<lparr>accelerometerSteps = l, healthAppSteps = None, accuracy = ''unknown'',
           recommendation = ''iOS Health comparison only available on iOS devices''\<rparr>)
   \<and> (platformOS s = IOS \<and> iosHealthService s \<and> stepCount s = l \<longrightarrow>
        (getStepsFromHealthApp hp = Throws msg \<longrightarrow>
           snd (compareWithHealthApp hp s)
             = \<lparr>accelerometerSteps = l, healthAppSteps = None, accuracy = ''error'',
                recommendation = ''Comparison failed: '' @ msg\<rparr>)
        \<and> (getStepsFromHealthApp hp = Returns None \<longrightarrow>
           snd (compareWithHealthApp hp s)
             = \<lparr>accelerometerSteps = l, healthAppSteps = None, accuracy = ''unknown'',
                recommendation = ''Health app data not available''\<rparr>)
        \<and> (getStepsFromHealthApp hp = Returns (Some e) \<and> max l e \<noteq> 0 \<longrightarrow>
           percentDiff l e = Finite (real_of_int \<bar>l - e\<bar> / real_of_int (max l e) * 100)
           \<and> snd (compareWithHealthApp hp s)
             = (if real_of_int \<bar>l - e\<bar> / real_of_int (max l e) * 100 \<le> 10
                then \<lparr>accelerometerSteps = l, healthAppSteps = Some e, accuracy = ''similar'',
                      recommendation =
                        ''Motion sensor and Health app data are similar. Good accuracy!''\<rparr>
                else \<lparr>accelerometerSteps = l, healthAppSteps = Some e,
                      accuracy = ''different'',
                      recommendation = ''Motion sensors: '' @ numberToString l
                        @ '', Health app: '' @ numberToString e
                        @ ''. Consider calibration.''\<rparr>)))
   \<and> (healthGetStepCount random hs d = None \<longrightarrow> syncWithHealthKit random hs l d = None)
   \<and> (healthGetStepCount random hs d = Some hk \<longrightarrow>
        syncWithHealthKit random hs l d
          = (if real_of_int (hkSteps hk) > real_of_int l * 1.2 then Some hk
             else Some \<lparr>hkSteps = l, hkDate = d, hkSource = ''SihatAI App'',
                        hkConfidence = 1\<rparr>))"
proof (intro conjI impI)
  assume "(platformOS s \<noteq> IOS \<or> \<not> iosHealthService s) \<and> stepCount s = l"
  then show "snd (compareWithHealthApp hp s)
        = \<lparr>accelerometerSteps = l, healthAppSteps = None, accuracy = ''unknown'',
           recommendation = ''iOS Health comparison only available on iOS devices''\<rparr>"
    by (auto simp: compare_cases)
next
  assume "platformOS s = IOS \<and> iosHealthService s \<and> stepCount s = l"
    and "getStepsFromHealthApp hp = Throws msg"
  then show "snd (compareWithHealthApp hp s)
             = \<lparr>accelerometerSteps = l, healthAppSteps = None, accuracy = ''error'',
                recommendation = ''Comparison failed: '' @ msg\<rparr>"
    by (simp add: compare_cases)
next
  assume "platformOS s = IOS \<and> iosHealthService s \<and> stepCount s = l"
    and "getStepsFromHealthApp hp = Returns None"
  then show "snd (compareWithHealthApp hp s)
             = \<lparr>accelerometerSteps = l, healthAppSteps = None, accuracy = ''unknown'',
                recommendation = ''Health app data not available''\<rparr>"
    by (simp add: compare_cases)
next
  assume a: "platformOS s = IOS \<and> iosHealthService s \<and> stepCount s = l"
    and b: "getStepsFromHealthApp hp = Returns (Some e) \<and> max l e \<noteq> 0"
  from b show pd: "percentDiff l e
      = Finite (real_of_int \<bar>l - e\<bar> / real_of_int (max l e) * 100)"
    by (simp add: percentDiff_finite)
  from a b show "snd (compareWithHealthApp hp s)
             = (if real_of_int \<bar>l - e\<bar> / real_of_int (max l e) * 100 \<le> 10
                then \<lparr>accelerometerSteps = l, healthAppSteps = Some e, accuracy = ''similar'',
                      recommendation =
                        ''Motion sensor and Health app data are similar. Good accuracy!''\<rparr>
                else \<lparr>accelerometerSteps = l, healthAppSteps = Some e,
                      accuracy = ''different'',
                      recommendation = ''Motion sensors: '' @ numberToString l
                        @ '', Health app: '' @ numberToString e
                        @ ''. Consider calibration.''\<rparr>)"
    by (simp add: compare_cases pd)
next
  assume "healthGetStepCount random hs d = None"
  then show "syncWithHealthKit random hs l d = None" by (simp add: syncWithHealthKit_def)
next
  assume "healthGetStepCount random hs d = Some hk"
  then show "syncWithHealthKit random hs l d
          = (if real_of_int (hkSteps hk) > real_of_int l * 1.2 then Some hk
             else Some \<lparr>hkSteps = l, hkDate = d, hkSource = ''SihatAI App'',
                        hkConfidence = 1\<rparr>)"
    by (rule syncWithHealthKit_choice)
qed

text \<open>Two counts of 0: the quotient is \<^verbatim>\<open>NaN\<close>, which is not \<open>\<le> 10\<close>, and the
  comparison answers \<open>different\<close>. Against a health service that declares neither method
  the comparison answers \<open>error\<close>.\<close>

lemma compare_both_zero:
  "platformOS s = IOS \<Longrightarrow> iosHealthService s \<Longrightarrow> stepCount s = 0 \<Longrightarrow>
   getStepsFromHealthApp hp = Returns (Some 0) \<Longrightarrow>
   percentDiff 0 0 = NaN \<and> accuracy (snd (compareWithHealthApp hp s)) = ''different''"
  by (simp add: compare_cases percentDiff_def js_divide_def)

lemma compare_notDeclared:
  "platformOS s = IOS \<Longrightarrow> iosHealthService s \<Longrightarrow>
   snd (compareWithHealthApp (notDeclared typeError) s)
     = \<lparr>accelerometerSteps = stepCount s, healthAppSteps = None, accuracy = ''error'',
        recommendation = ''Comparison failed: '' @ typeError\<rparr>"
  by (simp add: compare_cases notDeclared_def)

lemma counted5000:
  "platformOS counted5000 = IOS" "iosHealthService counted5000" "stepCount counted5000 = 5000"
  by (simp_all add: counted5000_def addSteps_def activeHelper_def loadSettles_def
      constructor_def initialFields_def loadTodaysSteps_def getItem_def helperAddSteps_def
      getInstance_def getStepCount_def notifyListener_def saveTodaysSteps_def Let_def)

lemma printed:
  "numberToString 5000 = ''5000''" "numberToString 7000 = ''7000''"
  by (simp_all add: numberToString_def digit_def Let_def
      decimal.simps [of 5000] decimal.simps [of 500] decimal.simps [of 50] decimal.simps [of 5]
      decimal.simps [of 7000] decimal.simps [of 700] decimal.simps [of 70] decimal.simps [of 7])

text \<open>With \<^verbatim>\<open>Math.random ()\<close> at 0.2 the mock reading of HealthKit is 7000 steps.\<close>

lemma mock_kept:
  "healthGetStepCount 0.2 granted 20000
     = Some \<lparr>hkSteps = 7000, hkDate = 20000, hkSource = ''iOS Health App (Mock)'',
             hkConfidence = 0.95\<rparr>"
  "syncWithHealthKit 0.2 granted 6800 20000
       = Some \<lparr>hkSteps = 6800, hkDate = 20000, hkSource = ''SihatAI App'', hkConfidence = 1\<rparr>"
  "syncWithHealthKit 0.2 granted 20000 20000
       = Some \<lparr>hkSteps = 20000, hkDate = 20000, hkSource = ''SihatAI App'', hkConfidence = 1\<rparr>"
  by (simp_all add: syncWithHealthKit_def healthGetStepCount_def granted_def)

lemma rated:
  "js_le (percentDiff 6800 7000) 10" "js_gt (percentDiff 20000 7000) 10"
  "js_gt (percentDiff 5000 7000) 10" "\<not> js_le (percentDiff 5000 7000) 10"
  by (simp_all add: percentDiff_def js_divide_def)

text \<open>
  Claim C8, as stated, has one operation that answers \<open>similar\<close> when \<open>percentDiff \<le> 10\<close>,
  chooses the external source when \<open>percentDiff > 10\<close> and \<open>e > l \<cdot> 1.2\<close>, and otherwise
  keeps the local count with a rationale that holds both numbers. It fails on either
  operation. With the HealthKit reading 7000: \<^verbatim>\<open>syncWithHealthKit\<close> at the local count
  6800 (2.9 percent) returns the record of 6800 with nothing that says similar, and at
  20000 (65 percent) the record of 20000 with no rationale and without the number 7000.
  Given a health service that answers its call, \<^verbatim>\<open>compareWithHealthApp\<close> at 5000 against
  7000 (28.6 percent, and 7000 > 6000) returns the rationale of the case in which the local
  count is kept, and no choice; at 0 against 0 the quotient is \<^verbatim>\<open>NaN\<close> and the answer
  is \<open>different\<close>.
\<close>

theorem C8_counterexample:
  "healthGetStepCount 0.2 granted 20000
     = Some \<lparr>hkSteps = 7000, hkDate = 20000, hkSource = ''iOS Health App (Mock)'',
             hkConfidence = 0.95\<rparr>
   \<and> js_le (percentDiff 6800 7000) 10
   \<and> syncWithHealthKit 0.2 granted 6800 20000
       = Some \<lparr>hkSteps = 6800, hkDate = 20000, hkSource = ''SihatAI App'', hkConfidence = 1\<rparr>
   \<and> js_gt (percentDiff 20000 7000) 10
   \<and> syncWithHealthKit 0.2 granted 20000 20000
       = Some \<lparr>hkSteps = 20000, hkDate = 20000, hkSource = ''SihatAI App'', hkConfidence = 1\<rparr>
   \<and> js_gt (percentDiff 5000 7000) 10
   \<and> real_of_int 7000 > real_of_int 5000 * 1.2
   \<and> snd (compareWithHealthApp (reporting 7000) counted5000)
       = \<lparr>accelerometerSteps = 5000, healthAppSteps = Some 7000, accuracy = ''different'',
          recommendation = ''Motion sensors: 5000, Health app: 7000. Consider calibration.''\<rparr>
   \<and> percentDiff 0 0 = NaN
   \<and> accuracy (snd (compareWithHealthApp (reporting 0)
          (loadSettles (constructor env0 IOS Map.empty)))) = ''different''"
proof -
  have c: "snd (compareWithHealthApp (reporting 7000) counted5000)
       = \<lparr>accelerometerSteps = 5000, healthAppSteps = Some 7000, accuracy = ''different'',
          recommendation = ''Motion sensors: 5000, Health app: 7000. Consider calibration.''\<rparr>"
    by (simp add: compare_cases counted5000 reporting_def rated printed)
  have z: "percentDiff 0 0 = NaN
      \<and> accuracy (snd (compareWithHealthApp (reporting 0)
            (loadSettles (constructor env0 IOS Map.empty)))) = ''different''"
    by (rule compare_both_zero)
      (simp_all add: loadSettles_def constructor_def initialFields_def loadTodaysSteps_def
        getItem_def env0_def reporting_def)
  show ?thesis
    using mock_kept rated c z by simp
qed

text \<open>A comparison off iOS; on iOS a local count of 5000 against a health service that
  throws, one without data, one that reports 5250 (4.8 percent) and one that reports 7000
  (28.6 percent); HealthKit unavailable, and its reading 7000 against 5000 and 6000.\<close>

theorem C8_reconciliation_advisor_witness:
  "snd (compareWithHealthApp noData (constructor env0 Android Map.empty))
     = \<lparr>accelerometerSteps = 0, healthAppSteps = None, accuracy = ''unknown'',
        recommendation = ''iOS Health comparison only available on iOS devices''\<rparr>
   \<and> accuracy (snd (compareWithHealthApp (notDeclared ''TypeError'') counted5000)) = ''error''
   \<and> accuracy (snd (compareWithHealthApp noData counted5000)) = ''unknown''
   \<and> percentDiff 5000 5250 = Finite (100 / 21)
   \<and> accuracy (snd (compareWithHealthApp (reporting 5250) counted5000)) = ''similar''
   \<and> percentDiff 5000 7000 = Finite (200 / 7)
   \<and> recommendation (snd (compareWithHealthApp (reporting 7000) counted5000))
       = ''Motion sensors: 5000, Health app: 7000. Consider calibration.''
   \<and> syncWithHealthKit 0.2 (granted\<lparr>healthKitAvailable := False\<rparr>) 5000 20000 = None
   \<and> syncWithHealthKit 0.2 granted 5000 20000
       = Some \<lparr>hkSteps = 7000, hkDate = 20000, hkSource = ''iOS Health App (Mock)'',
               hkConfidence = 0.95\<rparr>
   \<and> syncWithHealthKit 0.2 granted 6000 20000
       = Some \<lparr>hkSteps = 6000, hkDate = 20000, hkSource = ''SihatAI App'', hkConfidence = 1\<rparr>"
proof -
  let ?hk = "\<lparr>hkSteps = 7000, hkDate = 20000, hkSource = ''iOS Health App (Mock)'',
             hkConfidence = 0.95\<rparr>"
  let ?android = "constructor env0 Android Map.empty"
  have android: "(platformOS ?android \<noteq> IOS \<or> \<not> iosHealthService ?android)
      \<and> stepCount ?android = 0"
    by (simp add: constructor_def initialFields_def loadTodaysSteps_def)
  have ios: "platformOS counted5000 = IOS \<and> iosHealthService counted5000
      \<and> stepCount counted5000 = 5000"
    by (simp add: counted5000)
  have a: "snd (compareWithHealthApp noData ?android)
     = \<lparr>accelerometerSteps = 0, healthAppSteps = None, accuracy = ''unknown'',
        recommendation = ''iOS Health comparison only available on iOS devices''\<rparr>"
    by (rule C8_reconciliation_advisor [THEN conjunct1, THEN mp, OF android])
  note on_ios = C8_reconciliation_advisor [THEN conjunct2, THEN conjunct1, THEN mp, OF ios]
  have t: "getStepsFromHealthApp (notDeclared ''TypeError'') = Throws ''TypeError''"
    by (simp add: notDeclared_def)
  have b: "accuracy (snd (compareWithHealthApp (notDeclared ''TypeError'') counted5000))
      = ''error''"
    using on_ios [THEN conjunct1, THEN mp, OF t] by simp
  have n: "getStepsFromHealthApp noData = Returns None" by (simp add: noData_def)
  have c: "accuracy (snd (compareWithHealthApp noData counted5000)) = ''unknown''"
    using on_ios [THEN conjunct2, THEN conjunct1, THEN mp, OF n] by simp
  have r1: "getStepsFromHealthApp (reporting 5250) = Returns (Some 5250) \<and> max 5000 5250 \<noteq> (0 :: int)"
    by (simp add: reporting_def)
  note low = on_ios [THEN conjunct2, THEN conjunct2, THEN mp, OF r1]
  have p1: "percentDiff 5000 5250 = Finite (100 / 21)"
    using low [THEN conjunct1] by simp
  have d: "accuracy (snd (compareWithHealthApp (reporting 5250) counted5000)) = ''similar''"
    using low [THEN conjunct2] by simp
  have r2: "getStepsFromHealthApp (reporting 7000) = Returns (Some 7000) \<and> max 5000 7000 \<noteq> (0 :: int)"
    by (simp add: reporting_def)
  note high = on_ios [THEN conjunct2, THEN conjunct2, THEN mp, OF r2]
  have p2: "percentDiff 5000 7000 = Finite (200 / 7)"
    using high [THEN conjunct1] by simp
  have e: "recommendation (snd (compareWithHealthApp (reporting 7000) counted5000))
       = ''Motion sensors: 5000, Health app: 7000. Consider calibration.''"
    using high [THEN conjunct2] by (simp add: printed)
  have off: "healthGetStepCount 0.2 (granted\<lparr>healthKitAvailable := False\<rparr>) 20000 = None"
    by (simp add: healthGetStepCount_def)
  have f: "syncWithHealthKit 0.2 (granted\<lparr>healthKitAvailable := False\<rparr>) 5000 20000 = None"
    by (rule C8_reconciliation_advisor
        [THEN conjunct2, THEN conjunct2, THEN conjunct1, THEN mp, OF off])
  have m: "healthGetStepCount 0.2 granted 20000 = Some ?hk" by (rule mock_kept(1))
  note choice = C8_reconciliation_advisor
      [THEN conjunct2, THEN conjunct2, THEN conjunct2, THEN mp, OF m]
  have g: "syncWithHealthKit 0.2 granted 5000 20000 = Some ?hk"
    using choice [of 5000] by simp
  have h: "syncWithHealthKit 0.2 granted 6000 20000
       = Some \<lparr>hkSteps = 6000, hkDate = 20000, hkSource = ''SihatAI App'', hkConfidence = 1\<rparr>"
    using choice [of 6000] by simp
  from a b c p1 d p2 e f g h show ?thesis by simp
qed

section \<open>Monotonicity of the daily count\<close>

lemma notify_save_fields [simp]:
  "platformOS (notifyListener s) = platformOS s"
  "iosHelper (notifyListener s) = iosHelper s"
  "iosHealthService (notifyListener s) = iosHealthService s"
  "stepCount (notifyListener s) = stepCount s"
  "storage (notifyListener s) = storage s"
  "platformOS (saveTodaysSteps e s) = platformOS s"
  "iosHelper (saveTodaysSteps e s) = iosHelper s"
  "iosHealthService (saveTodaysSteps e s) = iosHealthService s"
  "stepCount (saveTodaysSteps e s) = stepCount s"
  by (simp_all add: notifyListener_def saveTodaysSteps_def)

lemma detect_count_mono:
  "helperStepCount h \<le> helperStepCount (fst (detectStepFromAcceleration e x y z h))"
  by (simp add: detectStepFromAcceleration_def Let_def)

lemma detectStep_fields [simp]:
  "platformOS (detectStep e m s) = platformOS s"
  "iosHelper (detectStep e m s) = iosHelper s"
  "iosHealthService (detectStep e m s) = iosHealthService s"
  by (simp_all add: detectStep_def Let_def)

lemma listener_frame:
  "platformOS (accelerometerListener e x y z s) = platformOS s"
  "iosHealthService (accelerometerListener e x y z s) = iosHealthService s"
  "(iosHelper (accelerometerListener e x y z s) = None) = (iosHelper s = None)"
  by (auto simp: accelerometerListener_def activeHelper_def Let_def
      split: option.splits prod.splits)

lemma listener_mono:
  "getCurrentStepCount s \<le> getCurrentStepCount (accelerometerListener e x y z s)"
proof (cases "activeHelper s")
  case None
  then have "activeHelper (detectStep e (sqrt (x * x + y * y + z * z)) s) = None"
    by (simp add: activeHelper_def split: if_splits)
  with None show ?thesis
    by (simp add: accelerometerListener_def getCurrentStepCount_def detectStep_count)
next
  case (Some h)
  then have ios: "platformOS s = IOS" by (simp add: activeHelper_def split: if_splits)
  obtain h1 d where det: "detectStepFromAcceleration e x y z h = (h1, d)"
    by (cases "detectStepFromAcceleration e x y z h")
  have mono: "helperStepCount h \<le> helperStepCount h1"
    using detect_count_mono [of h e x y z] det by simp
  have "activeHelper (accelerometerListener e x y z s) = Some h1"
    using Some ios det
    by (simp add: accelerometerListener_def activeHelper_def Let_def)
  with Some mono show ?thesis
    by (simp add: getCurrentStepCount_def getStepCount_def)
qed

lemma addSteps_frame:
  "platformOS (addSteps e n s) = platformOS s"
  "iosHealthService (addSteps e n s) = iosHealthService s"
  "(iosHelper (addSteps e n s) = None) = (iosHelper s = None)"
  by (auto simp: addSteps_def activeHelper_def Let_def split: option.splits)

lemma addSteps_current:
  "getCurrentStepCount (addSteps e n s) = getCurrentStepCount s + n"
  by (simp add: addSteps_def getCurrentStepCount_def activeHelper_def Let_def
      helperAddSteps_def getStepCount_def split: option.splits)

lemma sync_frame:
  "platformOS (fst (syncWithHealthApp e hp s)) = platformOS s"
  "iosHealthService (fst (syncWithHealthApp e hp s)) = iosHealthService s"
  "iosHelper (fst (syncWithHealthApp e hp s)) = iosHelper s"
  by (simp_all add: syncWithHealthApp_def Let_def split: answer.splits option.splits)

lemma sync_stepCount:
  "stepCount (fst (syncWithHealthApp e hp s)) =
     (if platformOS s = IOS \<and> iosHealthService s \<and> isAvailable hp = Returns True
      then (case getStepsFromHealthApp hp of Returns (Some n) \<Rightarrow> n | _ \<Rightarrow> stepCount s)
      else stepCount s)"
  by (simp add: syncWithHealthApp_def Let_def split: answer.splits option.splits)

lemma sync_current:
  "wellFormed s \<Longrightarrow>
   getCurrentStepCount (fst (syncWithHealthApp e hp s)) = getCurrentStepCount s"
proof (cases "platformOS s = IOS")
  case False
  then show ?thesis
    by (simp add: getCurrentStepCount_def activeHelper_def sync_frame sync_stepCount)
next
  case True
  assume "wellFormed s"
  with True obtain h where "iosHelper s = Some h" by (auto simp: wellFormed_def)
  with True show ?thesis
    by (simp add: getCurrentStepCount_def activeHelper_def sync_frame)
qed

lemma sync_throws:
  "isAvailable hp = Throws typeError \<Longrightarrow> fst (syncWithHealthApp e hp s) = s"
  by (simp add: syncWithHealthApp_def Let_def)

lemma loadSettles_settled: "pendingLoad s = None \<Longrightarrow> loadSettles s = s"
  by (simp add: loadSettles_def)

lemma loadSettles_once: "pendingLoad (loadSettles s) = None"
  by (simp add: loadSettles_def split: option.splits sum.splits)

text \<open>
  Claim C9 says that within a day no operation but the reset makes
  \<^verbatim>\<open>getCurrentStepCount ()\<close> return less than it returned before. Step events and
  additions of a non-negative amount never lower it (\<open>listener_mono\<close>,
  \<open>addSteps_current\<close>), a synchronization leaves it as it is (\<open>sync_current\<close>), and with a
  health service that throws it changes nothing at all (\<open>sync_throws\<close>). The load that the
  constructor leaves pending does lower it: on the generic path, with no record for today,
  8 steps are added before the load settles; \<^verbatim>\<open>getCurrentStepCount ()\<close> returns 8, the
  load settles with the answer read when the constructor ran, and it returns 0, while the
  persisted record says 8. On iOS the step count that is persisted and handed to the
  listener drops from the loaded 500 to 1 with the first added step, since the helper's
  counter was not advanced by the load.
\<close>

theorem C9_pending_load_lowers_count:
  "pendingLoad (constructor env0 Android Map.empty) = Some (Inr None)
   \<and> getCurrentStepCount (addSteps env0 8 (constructor env0 Android Map.empty)) = 8
   \<and> getCurrentStepCount (loadSettles (addSteps env0 8 (constructor env0 Android Map.empty)))
       = 0
   \<and> storage (loadSettles (addSteps env0 8 (constructor env0 Android Map.empty))) 20000
       = Some \<lparr>steps = 8, date = 20000, lastUpdate = 1728000000000\<rparr>
   \<and> stepCount (loadSettles (constructor env0 IOS stored500)) = 500
   \<and> stepCount (addSteps env0 1 (loadSettles (constructor env0 IOS stored500))) = 1"
proof -
  let ?s = "constructor env0 Android Map.empty"
  have s: "pendingLoad ?s = Some (Inr None)" "platformOS ?s = Android" "stepCount ?s = 0"
    "storage ?s = Map.empty"
    by (simp_all add: constructor_def initialFields_def loadTodaysSteps_def getItem_def
        env0_def)
  have added: "pendingLoad (addSteps env0 8 ?s) = Some (Inr None)"
    "platformOS (addSteps env0 8 ?s) = Android"
    "stepCount (addSteps env0 8 ?s) = 8"
    "storage (addSteps env0 8 ?s) 20000
       = Some \<lparr>steps = 8, date = 20000, lastUpdate = 1728000000000\<rparr>"
    by (simp_all add: addSteps_def activeHelper_def s notifyListener_def saveTodaysSteps_def
        Let_def today_env0)
       (simp_all add: env0_def)
  have before: "getCurrentStepCount (addSteps env0 8 ?s) = 8"
    by (simp add: getCurrentStepCount_def activeHelper_def added)
  have after: "getCurrentStepCount (loadSettles (addSteps env0 8 ?s)) = 0"
    "storage (loadSettles (addSteps env0 8 ?s)) 20000
       = Some \<lparr>steps = 8, date = 20000, lastUpdate = 1728000000000\<rparr>"
    by (simp_all add: getCurrentStepCount_def activeHelper_def loadSettles_def added)
  have ios: "stepCount (addSteps env0 1 (loadSettles (constructor env0 IOS stored500))) = 1"
    by (simp add: addSteps_def activeHelper_def restarted helperAddSteps_def
        getInstance_def getStepCount_def Let_def)
  from s(1) before after ios show ?thesis by (simp add: restarted)
qed

section \<open>The comparison with the health app changes nothing\<close>

text \<open>
  Claim C10. For every state of the service and every answer of the health service,
  \<^verbatim>\<open>compareWithHealthApp\<close> leaves the whole state as it was: \<^verbatim>\<open>getCurrentStepCount ()\<close>
  returns the same value before and after, and the step count, the persisted records and
  the sequence of listener calls are unchanged.
\<close>

theorem C10_compare_is_mutation_free:
  "fst (compareWithHealthApp hp s) = s
   \<and> getCurrentStepCount (fst (compareWithHealthApp hp s)) = getCurrentStepCount s
   \<and> stepCount (fst (compareWithHealthApp hp s)) = stepCount s
   \<and> storage (fst (compareWithHealthApp hp s)) = storage s
   \<and> notified (fst (compareWithHealthApp hp s)) = notified s"
proof -
  have "fst (compareWithHealthApp hp s) = s"
    by (simp add: compareWithHealthApp_def Let_def split: answer.splits option.splits)
  then show ?thesis by simp
qed

text \<open>On iOS, with 500 steps loaded into the service and a health app that reports 140:
  the comparison returns the state it was given.\<close>

theorem C10_compare_is_mutation_free_witness:
  "fst (compareWithHealthApp (reporting 140) (loadSettles (constructor env0 IOS stored500)))
     = loadSettles (constructor env0 IOS stored500)
   \<and> stepCount
        (fst (compareWithHealthApp (reporting 140) (loadSettles (constructor env0 IOS stored500))))
     = 500
   \<and> accuracy
        (snd (compareWithHealthApp (reporting 140) (loadSettles (constructor env0 IOS stored500))))
     = ''different''"
proof -
  note C10 = C10_compare_is_mutation_free
      [of "reporting 140" "loadSettles (constructor env0 IOS stored500)"]
  have "accuracy
        (snd (compareWithHealthApp (reporting 140) (loadSettles (constructor env0 IOS stored500))))
     = ''different''"
    by (simp add: compareWithHealthApp_def restarted reporting_def Let_def js_divide_def)
  with C10 show ?thesis by (simp add: restarted)
qed

end
